theory Spec2Isabelle
  imports Complex_Main "HOL-Library.Log_Nat"
begin

section \<open>Python values, exceptions and dictionaries\<close>

text \<open>
  The exception classes the program raises or catches.  The first four are the classes of
  \<^verbatim>\<open>app/repositories/exceptions.py\<close>, \<open>PrivateKeyEncryptionError\<close> is the class of
  \<^verbatim>\<open>app/utils/crypto.py\<close>, \<open>PyException\<close> is a plain \<^verbatim>\<open>Exception(msg)\<close>, and
  \<open>LibraryError\<close> stands for an exception raised by the web3 / eth-account / SQLAlchemy
  libraries or by the remote node (all of them subclasses of \<^verbatim>\<open>Exception\<close>).  Every
  constructor carries the text that \<^verbatim>\<open>str(e)\<close> returns, except \<open>KeyError\<close>, which
  carries the missing key: the text of a \<^verbatim>\<open>KeyError\<close> is the \<^verbatim>\<open>repr\<close> of its key, which
  for a key of letters such as \<^verbatim>\<open>status\<close> is the key between single quotes, and the two
  Unicode errors, which carry a short reason only.
\<close>

datatype exn =
    AccountAlreadyExistsError string
  | AccountNotFoundError string
  | InsufficientBalanceError string
  | BlockchainError string
  | PrivateKeyEncryptionError string
  | PyException string
  | TypeError string
  | OverflowError string
  | KeyError string
  | ValueError string
  | UnicodeEncodeError string
  | UnicodeDecodeError string
  | InvalidToken
  | LibraryError string

fun str_exn :: "exn \<Rightarrow> string" where
  "str_exn (AccountAlreadyExistsError m) = m"
| "str_exn (AccountNotFoundError m) = m"
| "str_exn (InsufficientBalanceError m) = m"
| "str_exn (BlockchainError m) = m"
| "str_exn (PrivateKeyEncryptionError m) = m"
| "str_exn (PyException m) = m"
| "str_exn (TypeError m) = m"
| "str_exn (OverflowError m) = m"
| "str_exn (KeyError k) = [CHR 0x27] @ k @ [CHR 0x27]"
| "str_exn (ValueError m) = m"
| "str_exn (UnicodeEncodeError m) = m"
| "str_exn (UnicodeDecodeError m) = m"
| "str_exn InvalidToken = []"
| "str_exn (LibraryError m) = m"

datatype pyval = PyInt int | PyStr string

text \<open>A Python \<^verbatim>\<open>dict\<close> with string keys (a transaction, a receipt).\<close>

type_synonym pydict = "string \<rightharpoonup> pyval"

definition getitem :: "pydict \<Rightarrow> string \<Rightarrow> exn + pyval" where
  "getitem d k = (case d k of None \<Rightarrow> Inl (KeyError k) | Some v \<Rightarrow> Inr v)"

section \<open>Python floats\<close>

text \<open>
  A Python \<^verbatim>\<open>float\<close> is an IEEE-754 binary64 number: a finite one is a rational
  \<open>m * 2 ^ e\<close> with \<open>\<bar>m\<bar> < 2 ^ 53\<close>.  \<open>round_double\<close> rounds an exact rational
  to the nearest double, ties to even, with gradual underflow below \<open>2 ^ -1022\<close> and
  overflow to an infinity from \<open>2 ^ 1024\<close> on.
\<close>

datatype pyfloat = Finite rat | PosInf | NegInf

definition round_half_even :: "rat \<Rightarrow> int" where
  "round_half_even z =
     (let n = \<lfloor>z\<rfloor>; r = z - of_int n
      in if r < 1 / 2 then n else if 1 / 2 < r then n + 1
         else if even n then n else n + 1)"

definition floor_log2 :: "rat \<Rightarrow> int" where
  "floor_log2 x =
     (let e0 = bitlen (fst (quotient_of x)) - bitlen (snd (quotient_of x))
      in if 2 powi e0 \<le> x then e0 else e0 - 1)"

definition round_double :: "rat \<Rightarrow> pyfloat" where
  "round_double x =
     (if x = 0 then Finite 0
      else let e = max (floor_log2 \<bar>x\<bar>) (- 1022);
               q = 2 powi (e - 52);
               r = of_int (round_half_even (x / q)) * q
           in if 2 powi 1024 \<le> r then PosInf
              else if r \<le> - (2 powi 1024) then NegInf
              else Finite r)"

text \<open>\<^verbatim>\<open>float(n)\<close> for an \<^verbatim>\<open>int\<close>: correctly rounded, \<^verbatim>\<open>OverflowError\<close> when too large.\<close>

definition float_of_int :: "int \<Rightarrow> exn + rat" where
  "float_of_int n =
     (case round_double (of_int n) of
        Finite r \<Rightarrow> Inr r
      | PosInf \<Rightarrow> Inl (OverflowError ''int too large to convert to float'')
      | NegInf \<Rightarrow> Inl (OverflowError ''int too large to convert to float''))"

text \<open>\<^verbatim>\<open>n * c\<close> for an \<^verbatim>\<open>int\<close> \<open>n\<close> and a finite \<^verbatim>\<open>float\<close> \<open>c\<close>: \<open>n\<close> is converted first.\<close>

definition int_mul_float :: "int \<Rightarrow> rat \<Rightarrow> exn + pyfloat" where
  "int_mul_float n c =
     (case float_of_int n of Inl e \<Rightarrow> Inl e | Inr a \<Rightarrow> Inr (round_double (a * c)))"

text \<open>\<^verbatim>\<open>int(x)\<close> for a \<^verbatim>\<open>float\<close>: truncation towards zero.\<close>

fun int_of_float :: "pyfloat \<Rightarrow> exn + int" where
  "int_of_float (Finite r) = Inr (if 0 \<le> r then \<lfloor>r\<rfloor> else \<lceil>r\<rceil>)"
| "int_of_float PosInf = Inl (OverflowError ''cannot convert float infinity to integer'')"
| "int_of_float NegInf = Inl (OverflowError ''cannot convert float infinity to integer'')"

text \<open>The literal \<^verbatim>\<open>1.2\<close>: the double nearest to \<open>6 / 5\<close>.\<close>

definition float_1_2 :: rat where
  "float_1_2 = 5404319552844595 / 4503599627370496"

section \<open>Strings\<close>

text \<open>
  \<^verbatim>\<open>str(n)\<close> for an \<^verbatim>\<open>int\<close>, as the f-strings of the program render it.  The
  interpreter's limit on the number of digits of such a conversion (4300 unless configured
  otherwise) is not modelled: \<open>str_int\<close> renders every integer.
\<close>

fun str_nat :: "nat \<Rightarrow> string" where
  "str_nat n =
     (if n < 10 then [char_of (48 + n)]
      else str_nat (n div 10) @ [char_of (48 + n mod 10)])"

declare str_nat.simps [simp del]

definition str_int :: "int \<Rightarrow> string" where
  "str_int i = (if i < 0 then CHR ''-'' # str_nat (nat (- i)) else str_nat (nat i))"

definition startswith :: "string \<Rightarrow> string \<Rightarrow> bool" where
  "startswith s p = (take (length p) s = p)"

definition quoted :: "string \<Rightarrow> string" where
  "quoted s = [CHR 0x27] @ s @ [CHR 0x27]"

section \<open>State, effects and the external libraries\<close>

text \<open>
  The program talks to a remote node, sleeps, logs and uses a database session.  The state
  threaded through the model holds the state of everything outside the program (\<open>world\<close>:
  the node, the clock, the random source; its type is a parameter), the calls the program
  has made so far in order (\<open>trace\<close>), and the database: the rows of the table
  \<^verbatim>\<open>users\<close> and the objects added to the session but not yet committed.
\<close>

datatype log_level = LInfo | LWarning | LError

datatype event =
    GetTransactionCount string
  | EthGetBalance string
  | EstimateGas pydict
  | SendRawTransaction string
  | WaitForTransactionReceipt string
  | CallBalanceOf string string
  | BuildTransaction string string int pydict
  | Sleep pyfloat
  | Log log_level string

record user =
  user_name :: string
  user_address :: string
  user_private_key :: string

record 'w state =
  world :: 'w
  trace :: "event list"
  db_rows :: "user list"
  db_pending :: "user list"

type_synonym ('w, 'a) io = "'w state \<Rightarrow> (exn + 'a) \<times> 'w state"

definition ret :: "'a \<Rightarrow> ('w, 'a) io" where
  "ret a s = (Inr a, s)"

definition raise :: "exn \<Rightarrow> ('w, 'a) io" where
  "raise e s = (Inl e, s)"

definition lift :: "exn + 'a \<Rightarrow> ('w, 'a) io" where
  "lift r s = (r, s)"

definition bind :: "('w, 'a) io \<Rightarrow> ('a \<Rightarrow> ('w, 'b) io) \<Rightarrow> ('w, 'b) io" where
  "bind m f s = (case m s of (Inl e, s') \<Rightarrow> (Inl e, s') | (Inr a, s') \<Rightarrow> f a s')"

text \<open>\<^verbatim>\<open>try: m  except Exception as e: h(e)\<close>\<close>

definition try_except :: "('w, 'a) io \<Rightarrow> (exn \<Rightarrow> ('w, 'a) io) \<Rightarrow> ('w, 'a) io" where
  "try_except m h s = (case m s of (Inl e, s') \<Rightarrow> h e s' | (Inr a, s') \<Rightarrow> (Inr a, s'))"

definition emit :: "event \<Rightarrow> ('w, unit) io" where
  "emit ev s = (Inr (), s\<lparr>trace := trace s @ [ev]\<rparr>)"

definition logger_log :: "log_level \<Rightarrow> string \<Rightarrow> ('w, unit) io" where
  "logger_log lvl msg = emit (Log lvl msg)"

definition sleep :: "pyfloat \<Rightarrow> ('w, unit) io" where
  "sleep d = emit (Sleep d)"

text \<open>A call to the outside: it is recorded in the trace, and the outside answers.\<close>

definition node_call :: "event \<Rightarrow> ('w \<Rightarrow> (exn + 'a) \<times> 'w) \<Rightarrow> ('w, 'a) io" where
  "node_call ev h s =
     (case h (world s) of (r, w') \<Rightarrow> (r, s\<lparr>world := w', trace := trace s @ [ev]\<rparr>))"

text \<open>
  The functions of web3.py and eth-account that the client calls.  They are not code of this
  repository, so they are parameters: the pure ones return a value or raise, the ones that
  reach the node also read and change the world.  A contract object is identified with its
  checksummed address, a local account with its address, a signed transaction with its raw
  bytes.
\<close>

record 'w web3 =
  to_checksum_address :: "string \<Rightarrow> exn + string"
  to_wei :: "rat \<Rightarrow> string \<Rightarrow> exn + int"
  to_hex :: "string \<Rightarrow> string"
  account_from_key :: "string \<Rightarrow> exn + string"
  account_create :: "'w \<Rightarrow> (string \<times> string) \<times> 'w"
  sign_transaction :: "pydict \<Rightarrow> string \<Rightarrow> exn + string"
  eth_get_transaction_count :: "string \<Rightarrow> 'w \<Rightarrow> (exn + int) \<times> 'w"
  eth_get_balance :: "string \<Rightarrow> 'w \<Rightarrow> (exn + int) \<times> 'w"
  eth_estimate_gas :: "pydict \<Rightarrow> 'w \<Rightarrow> (exn + int) \<times> 'w"
  eth_send_raw_transaction :: "string \<Rightarrow> 'w \<Rightarrow> (exn + string) \<times> 'w"
  eth_wait_for_transaction_receipt :: "string \<Rightarrow> 'w \<Rightarrow> (exn + pydict) \<times> 'w"
  balanceOf_call :: "string \<Rightarrow> string \<Rightarrow> 'w \<Rightarrow> (exn + int) \<times> 'w"
  transfer_build_transaction ::
    "string \<Rightarrow> string \<Rightarrow> int \<Rightarrow> pydict \<Rightarrow> 'w \<Rightarrow> (exn + pydict) \<times> 'w"

text \<open>The fields of \<^verbatim>\<open>app/settings.py\<close> that the modelled code reads.\<close>

record settings =
  faucet_private_key :: string
  chain_id :: int
  gas_limit :: int
  gas_price_gwei :: rat
  initial_faucet_gwei :: rat

section \<open>The retry decorator\<close>

text \<open>
  \<^verbatim>\<open>async_retry(max_retries, delay)(func)\<close> of \<^verbatim>\<open>app/utils/web3_client.py\<close>.  The
  \<^verbatim>\<open>for attempt in range(max_retries)\<close> loop is the recursion on \<open>attempt\<close>; the code after
  the loop is \<^verbatim>\<open>raise last_exception\<close>, a \<^verbatim>\<open>TypeError\<close> when no attempt was made.
\<close>

text \<open>The two branches of the \<^verbatim>\<open>except\<close> clause.\<close>

definition on_retry :: "pyfloat \<Rightarrow> ('w, unit) io" where
  "on_retry delay = bind (logger_log LWarning ''Retry attempt'') (\<lambda>_. sleep delay)"

definition on_give_up :: "('w, unit) io" where
  "on_give_up = logger_log LError ''Max retries reached''"

function retry_loop ::
  "int \<Rightarrow> pyfloat \<Rightarrow> ('w, 'a) io \<Rightarrow> int \<Rightarrow> exn option \<Rightarrow> ('w, 'a) io" where
  "retry_loop max_retries delay func attempt last_exception s =
     (if attempt < max_retries then
        (case func s of
           (Inr v, s1) \<Rightarrow> (Inr v, s1)
         | (Inl e, s1) \<Rightarrow>
             if attempt < max_retries - 1 then
               retry_loop max_retries delay func (attempt + 1) (Some e)
                 (snd (on_retry delay s1))
             else
               retry_loop max_retries delay func (attempt + 1) (Some e)
                 (snd (on_give_up s1)))
      else
        (case last_exception of
           None \<Rightarrow> (Inl (TypeError ''exceptions must derive from BaseException''), s)
         | Some e \<Rightarrow> (Inl e, s)))"
  by pat_completeness auto
termination
  by (relation "measure (\<lambda>(m, d, f, a, l, s). nat (m - a))") auto

declare retry_loop.simps [simp del]

definition async_retry :: "int \<Rightarrow> pyfloat \<Rightarrow> ('w, 'a) io \<Rightarrow> ('w, 'a) io" where
  "async_retry max_retries delay func = retry_loop max_retries delay func 0 None"

section \<open>The Web3 client\<close>

definition get_contract :: "'w web3 \<Rightarrow> string \<Rightarrow> exn + string" where
  "get_contract w3 address = to_checksum_address w3 address"

definition get_balance_attempt :: "'w web3 \<Rightarrow> string \<Rightarrow> string \<Rightarrow> ('w, int) io" where
  "get_balance_attempt w3 address token_address =
     bind (lift (get_contract w3 token_address)) (\<lambda>contract.
     bind (lift (to_checksum_address w3 address)) (\<lambda>checksum_address.
     node_call (CallBalanceOf contract checksum_address)
       (balanceOf_call w3 contract checksum_address)))"

definition get_balance :: "'w web3 \<Rightarrow> string \<Rightarrow> string \<Rightarrow> ('w, int) io" where
  "get_balance w3 address token_address =
     async_retry 3 (Finite 2)
       (get_balance_attempt w3 address token_address)"



text \<open>
  \<^verbatim>\<open>estimate_gas\<close>: the whole body is inside \<^verbatim>\<open>try\<close>, so an exception of the node's
  estimate and an exception of \<^verbatim>\<open>int(gas * 1.2)\<close> both end in the handler.
\<close>

definition estimate_gas_attempt :: "'w web3 \<Rightarrow> settings \<Rightarrow> pydict \<Rightarrow> ('w, int) io" where
  "estimate_gas_attempt w3 cfg transaction =
     try_except
       (bind (node_call (EstimateGas transaction) (eth_estimate_gas w3 transaction)) (\<lambda>gas.
        bind (lift (int_mul_float gas float_1_2)) (\<lambda>x.
        lift (int_of_float x))))
       (\<lambda>e. bind (logger_log LWarning ''Gas estimation failed, using default'') (\<lambda>_.
            ret (gas_limit cfg)))"

definition estimate_gas :: "'w web3 \<Rightarrow> settings \<Rightarrow> pydict \<Rightarrow> ('w, int) io" where
  "estimate_gas w3 cfg transaction =
     async_retry 3 (Finite 2)
       (estimate_gas_attempt w3 cfg transaction)"

text \<open>The dictionary \<^verbatim>\<open>transaction\<close> that \<^verbatim>\<open>send_native_token\<close> builds.\<close>

definition native_transaction :: "settings \<Rightarrow> int \<Rightarrow> string \<Rightarrow> int \<Rightarrow> int \<Rightarrow> pydict" where
  "native_transaction cfg nonce checksum_to amount_wei gas_price =
     [''nonce'' \<mapsto> PyInt nonce, ''to'' \<mapsto> PyStr checksum_to,
      ''value'' \<mapsto> PyInt amount_wei, ''gas'' \<mapsto> PyInt (gas_limit cfg),
      ''gasPrice'' \<mapsto> PyInt gas_price, ''chainId'' \<mapsto> PyInt (chain_id cfg)]"

definition send_native_token_attempt ::
  "'w web3 \<Rightarrow> settings \<Rightarrow> string \<Rightarrow> string \<Rightarrow> int \<Rightarrow> ('w, string) io" where
  "send_native_token_attempt w3 cfg from_private_key to_address amount_wei =
     bind (lift (account_from_key w3 from_private_key)) (\<lambda>account.
     bind (lift (to_checksum_address w3 to_address)) (\<lambda>checksum_to.
     bind (node_call (GetTransactionCount account) (eth_get_transaction_count w3 account))
       (\<lambda>nonce.
     bind (lift (to_wei w3 (gas_price_gwei cfg) ''gwei'')) (\<lambda>gas_price.
     let transaction = native_transaction cfg nonce checksum_to amount_wei gas_price in
     bind (estimate_gas w3 cfg transaction) (\<lambda>gas.
     bind (lift (sign_transaction w3 (transaction(''gas'' \<mapsto> PyInt gas)) from_private_key))
       (\<lambda>raw_transaction.
     bind (node_call (SendRawTransaction raw_transaction)
             (eth_send_raw_transaction w3 raw_transaction)) (\<lambda>tx_hash.
     bind (logger_log LInfo ''Native token sent'') (\<lambda>_.
     bind (node_call (WaitForTransactionReceipt tx_hash)
             (eth_wait_for_transaction_receipt w3 tx_hash)) (\<lambda>receipt.
     bind (lift (getitem receipt ''status'')) (\<lambda>status.
     if status \<noteq> PyInt 1 then raise (PyException (''Transaction failed: '' @ to_hex w3 tx_hash))
     else ret (to_hex w3 tx_hash)))))))))))"

definition send_native_token ::
  "'w web3 \<Rightarrow> settings \<Rightarrow> string \<Rightarrow> string \<Rightarrow> int \<Rightarrow> ('w, string) io" where
  "send_native_token w3 cfg from_private_key to_address amount_wei =
     async_retry 3 (Finite 2)
       (send_native_token_attempt w3 cfg from_private_key to_address amount_wei)"

definition transfer_erc20_attempt ::
  "'w web3 \<Rightarrow> settings \<Rightarrow> string \<Rightarrow> string \<Rightarrow> int \<Rightarrow> string \<Rightarrow> ('w, string) io" where
  "transfer_erc20_attempt w3 cfg from_private_key to_address amount token_address =
     bind (lift (account_from_key w3 from_private_key)) (\<lambda>account.
     bind (lift (get_contract w3 token_address)) (\<lambda>contract.
     bind (lift (to_checksum_address w3 to_address)) (\<lambda>checksum_to.
     bind (node_call (GetTransactionCount account) (eth_get_transaction_count w3 account))
       (\<lambda>nonce.
     bind (lift (to_wei w3 (gas_price_gwei cfg) ''gwei'')) (\<lambda>gas_price.
     let params =
           [''from'' \<mapsto> PyStr account, ''nonce'' \<mapsto> PyInt nonce,
            ''gas'' \<mapsto> PyInt gas_price, ''chainId'' \<mapsto> PyInt (chain_id cfg)]
     in
     bind (node_call (BuildTransaction contract checksum_to amount params)
             (transfer_build_transaction w3 contract checksum_to amount params))
       (\<lambda>transaction.
     bind (estimate_gas w3 cfg transaction) (\<lambda>gas.
     bind (lift (sign_transaction w3 (transaction(''gas'' \<mapsto> PyInt gas)) from_private_key))
       (\<lambda>raw_transaction.
     bind (node_call (SendRawTransaction raw_transaction)
             (eth_send_raw_transaction w3 raw_transaction)) (\<lambda>tx_hash.
     bind (logger_log LInfo ''ERC20 transfer sent'') (\<lambda>_.
     bind (node_call (WaitForTransactionReceipt tx_hash)
             (eth_wait_for_transaction_receipt w3 tx_hash)) (\<lambda>receipt.
     bind (lift (getitem receipt ''status'')) (\<lambda>status.
     if status \<noteq> PyInt 1 then raise (PyException (''Transaction failed: '' @ to_hex w3 tx_hash))
     else ret (to_hex w3 tx_hash)))))))))))))"

definition transfer_erc20 ::
  "'w web3 \<Rightarrow> settings \<Rightarrow> string \<Rightarrow> string \<Rightarrow> int \<Rightarrow> string \<Rightarrow> ('w, string) io" where
  "transfer_erc20 w3 cfg from_private_key to_address amount token_address =
     async_retry 3 (Finite 2)
       (transfer_erc20_attempt w3 cfg from_private_key to_address amount token_address)"

text \<open>
  \<^verbatim>\<open>Web3Client.create_account\<close>: \<^verbatim>\<open>Account.create()\<close> draws a fresh key from the world's
  random source; \<^verbatim>\<open>BlockchainAccount(...)\<close> runs the two validators of
  \<^verbatim>\<open>app/schemas/blockchain.py\<close>.  The validators raise \<^verbatim>\<open>ValueError\<close>, as written
  there; pydantic reports a failed validator to the caller as its own
  \<^verbatim>\<open>ValidationError\<close>, whose text is the library's.  Below, a failed validation is the
  \<^verbatim>\<open>ValueError\<close> of the first validator that fails: what is modelled of it is that
  \<^verbatim>\<open>create_account\<close> raises and returns no account.
\<close>

record blockchain_account =
  account_address :: string
  account_private_key :: string

definition validate_address :: "string \<Rightarrow> exn + string" where
  "validate_address v =
     (if \<not> startswith v ''0x'' \<or> length v \<noteq> 42
      then Inl (ValueError ''Invalid blockchain address format'')
      else Inr v)"

definition validate_private_key :: "string \<Rightarrow> exn + string" where
  "validate_private_key v =
     (if \<not> startswith v ''0x''
      then Inl (ValueError ''Private key must be a hex string starting with 0x'')
      else Inr v)"

definition web3_create_account :: "'w web3 \<Rightarrow> ('w, blockchain_account) io" where
  "web3_create_account w3 =
     bind (\<lambda>s. case account_create w3 (world s) of (acct, w') \<Rightarrow> (Inr acct, s\<lparr>world := w'\<rparr>))
       (\<lambda>account.
     bind (lift (to_checksum_address w3 (fst account))) (\<lambda>checksum_address.
     bind (lift (validate_address checksum_address)) (\<lambda>a.
     bind (lift (validate_private_key (snd account))) (\<lambda>k.
     ret \<lparr>account_address = a, account_private_key = k\<rparr>))))"

section \<open>The database session\<close>

text \<open>
  The table \<^verbatim>\<open>users\<close> of \<^verbatim>\<open>app/models/user.py\<close>: \<^verbatim>\<open>name\<close> is the primary key and
  \<^verbatim>\<open>address\<close> is unique.  The database is taken to be reachable: the only failure of a
  commit is a violated constraint, which leaves the table as it was.  The session of a
  request is not used again after a failed commit (the exception leaves
  \<^verbatim>\<open>create_account\<close>, the only caller of \<^verbatim>\<open>commit\<close>), so the state in which SQLAlchemy
  keeps such a session until \<^verbatim>\<open>rollback\<close> is not modelled.
\<close>

definition select_user_by_name :: "string \<Rightarrow> ('w, user option) io" where
  "select_user_by_name nm s =
     (case filter (\<lambda>u. user_name u = nm) (db_rows s) of
        [] \<Rightarrow> (Inr None, s)
      | [u] \<Rightarrow> (Inr (Some u), s)
      | _ \<Rightarrow> (Inl (LibraryError ''MultipleResultsFound''), s))"

definition db_add :: "user \<Rightarrow> ('w, unit) io" where
  "db_add u s = (Inr (), s\<lparr>db_pending := db_pending s @ [u]\<rparr>)"

fun db_flush :: "user list \<Rightarrow> user list \<Rightarrow> exn + user list" where
  "db_flush rows [] = Inr rows"
| "db_flush rows (u # us) =
     (if list_ex (\<lambda>r. user_name r = user_name u \<or> user_address r = user_address u) rows
      then Inl (LibraryError ''IntegrityError'')
      else db_flush (rows @ [u]) us)"

definition db_commit :: "('w, unit) io" where
  "db_commit s =
     (case db_flush (db_rows s) (db_pending s) of
        Inl e \<Rightarrow> (Inl e, s\<lparr>db_pending := []\<rparr>)
      | Inr rows \<Rightarrow> (Inr (), s\<lparr>db_rows := rows, db_pending := []\<rparr>))"

definition db_refresh :: "user \<Rightarrow> ('w, user) io" where
  "db_refresh u =
     bind (select_user_by_name (user_name u)) (\<lambda>r.
     case r of None \<Rightarrow> raise (LibraryError ''InvalidRequestError'') | Some u' \<Rightarrow> ret u')"

section \<open>The account repository\<close>

record user_response =
  response_name :: string
  response_address :: string
  response_private_key :: string
  faucet_tx_hash :: "string option"

definition get_user_by_name :: "string \<Rightarrow> ('w, user) io" where
  "get_user_by_name nm =
     bind (select_user_by_name nm) (\<lambda>r.
     case r of
       None \<Rightarrow>
         bind (logger_log LWarning ''Account not found'') (\<lambda>_.
         raise (AccountNotFoundError (''Account '' @ quoted nm @ '' not found'')))
     | Some u \<Rightarrow> ret u)"

definition get_initial_fund ::
  "'w web3 \<Rightarrow> settings \<Rightarrow> string \<Rightarrow> user option \<Rightarrow> ('w, string) io" where
  "get_initial_fund w3 cfg nm user_opt =
     bind (case user_opt of None \<Rightarrow> get_user_by_name nm | Some u \<Rightarrow> ret u) (\<lambda>u.
     bind (lift (to_wei w3 (initial_faucet_gwei cfg) ''gwei'')) (\<lambda>amount_wei.
     try_except
       (send_native_token w3 cfg (faucet_private_key cfg) (user_address u) amount_wei)
       (\<lambda>e. bind (logger_log LError ''Faucet funding failed'') (\<lambda>_.
            raise (BlockchainError (''Faucet funding failed: '' @ str_exn e))))))"

definition create_account :: "'w web3 \<Rightarrow> settings \<Rightarrow> string \<Rightarrow> ('w, user_response) io" where
  "create_account w3 cfg nm =
     bind (select_user_by_name nm) (\<lambda>existing_user.
     case existing_user of
       Some _ \<Rightarrow>
         bind (logger_log LWarning ''Account already exists'') (\<lambda>_.
         raise (AccountAlreadyExistsError
                  (''Account with name '' @ quoted nm @ '' already exists'')))
     | None \<Rightarrow>
         bind (web3_create_account w3) (\<lambda>account_data.
         bind (db_add \<lparr>user_name = nm, user_address = account_address account_data,
                       user_private_key = account_private_key account_data\<rparr>) (\<lambda>_.
         bind db_commit (\<lambda>_.
         bind (db_refresh \<lparr>user_name = nm, user_address = account_address account_data,
                           user_private_key = account_private_key account_data\<rparr>) (\<lambda>u.
         bind (get_initial_fund w3 cfg nm (Some u)) (\<lambda>tx.
         ret \<lparr>response_name = user_name u, response_address = user_address u,
              response_private_key = user_private_key u,
              faucet_tx_hash = Some tx\<rparr>))))))"

definition repo_get_balance :: "'w web3 \<Rightarrow> string \<Rightarrow> string \<Rightarrow> ('w, int) io" where
  "repo_get_balance w3 nm token_address =
     bind (get_user_by_name nm) (\<lambda>u.
     try_except (get_balance w3 (user_address u) token_address)
       (\<lambda>e. raise (BlockchainError (''Failed to get balance: '' @ str_exn e))))"

text \<open>
  \<^verbatim>\<open>transfer_from_to\<close>: the first \<^verbatim>\<open>except\<close> clause re-raises an
  \<^verbatim>\<open>InsufficientBalanceError\<close>, the second wraps every other exception.
\<close>

definition transfer_from_to ::
  "'w web3 \<Rightarrow> settings \<Rightarrow> string \<Rightarrow> string \<Rightarrow> int \<Rightarrow> string \<Rightarrow> ('w, string) io" where
  "transfer_from_to w3 cfg from_name to_name amount token_address =
     bind (get_user_by_name from_name) (\<lambda>from_user.
     bind (get_user_by_name to_name) (\<lambda>to_user.
     bind (try_except
             (bind (get_balance w3 (user_address from_user) token_address) (\<lambda>balance.
              if balance < amount then
                raise (InsufficientBalanceError
                         (''Insufficient balance. Available: '' @ str_int balance @
                          '', Required: '' @ str_int amount))
              else ret ()))
             (\<lambda>e. case e of
                InsufficientBalanceError m \<Rightarrow> raise (InsufficientBalanceError m)
              | _ \<Rightarrow>
                  bind (logger_log LError ''Failed to check balance'') (\<lambda>_.
                  raise (BlockchainError (''Failed to check balance: '' @ str_exn e)))))
       (\<lambda>_.
     transfer_erc20 w3 cfg (user_private_key from_user) (user_address to_user) amount
       token_address)))"

section \<open>Observations on a trace\<close>

fun is_broadcast :: "event \<Rightarrow> bool" where
  "is_broadcast (SendRawTransaction _) = True"
| "is_broadcast _ = False"

fun is_nonce_fetch :: "event \<Rightarrow> bool" where
  "is_nonce_fetch (GetTransactionCount _) = True"
| "is_nonce_fetch _ = False"

fun is_sleep :: "event \<Rightarrow> bool" where
  "is_sleep (Sleep _) = True"
| "is_sleep _ = False"

definition broadcasts :: "event list \<Rightarrow> nat" where
  "broadcasts evs = length (filter is_broadcast evs)"

definition nonce_fetches :: "event list \<Rightarrow> nat" where
  "nonce_fetches evs = length (filter is_nonce_fetch evs)"

definition sleeps :: "event list \<Rightarrow> event list" where
  "sleeps evs = filter is_sleep evs"

text \<open>The events an action appends to the trace when it is run in state \<open>s\<close>.\<close>

definition new_events :: "('w, 'a) io \<Rightarrow> 'w state \<Rightarrow> event list" where
  "new_events m s = drop (length (trace s)) (trace (snd (m s)))"

text \<open>What the decorator appends between two attempts, and after the last failed one.\<close>

definition retry_events :: "pyfloat \<Rightarrow> event list" where
  "retry_events delay = [Log LWarning ''Retry attempt'', Sleep delay]"

definition give_up_events :: "event list" where
  "give_up_events = [Log LError ''Max retries reached'']"


text \<open>The value and the state that a call of \<open>estimate_gas\<close> leaves.\<close>

definition estimated_gas :: "'w web3 \<Rightarrow> settings \<Rightarrow> pydict \<Rightarrow> 'w state \<Rightarrow> int" where
  "estimated_gas w3 cfg t s =
     (case fst (estimate_gas w3 cfg t s) of Inl e \<Rightarrow> gas_limit cfg | Inr g \<Rightarrow> g)"

definition after_estimate :: "'w web3 \<Rightarrow> settings \<Rightarrow> pydict \<Rightarrow> 'w state \<Rightarrow> 'w state" where
  "after_estimate w3 cfg t s = snd (estimate_gas w3 cfg t s)"

text \<open>
  A run in which the attempt function raises three times: the second and the third attempt
  start in the state that the warning and the sleep of 2 leave, and the submission returns
  the exception of the third attempt, in the state after the last log entry.  \<open>cause\<close>
  says, of the state before an attempt, its exception and the state after it, why the
  attempt raised.
\<close>

definition three_failed_attempts ::
  "('w state \<Rightarrow> exn \<Rightarrow> 'w state \<Rightarrow> bool) \<Rightarrow> ('w, 'a) io \<Rightarrow> ('w, 'a) io \<Rightarrow> 'w state \<Rightarrow> bool" where
  "three_failed_attempts cause attempt submission s =
     (\<exists>e1 s1 e2 s2 e3 s3.
        attempt s = (Inl e1, s1) \<and> cause s e1 s1 \<and>
        attempt (snd (on_retry (Finite 2) s1)) = (Inl e2, s2) \<and>
        cause (snd (on_retry (Finite 2) s1)) e2 s2 \<and>
        attempt (snd (on_retry (Finite 2) s2)) = (Inl e3, s3) \<and>
        cause (snd (on_retry (Finite 2) s2)) e3 s3 \<and>
        submission s = (Inl e3, snd (on_give_up s3)))"

text \<open>
  An attempt that ends because the node refused its broadcast: the broadcast is the last
  call of the attempt and the only one, and the exception is the node's answer to it.
\<close>

definition broadcast_rejected :: "'w web3 \<Rightarrow> 'w state \<Rightarrow> exn \<Rightarrow> 'w state \<Rightarrow> bool" where
  "broadcast_rejected w3 s e s' =
     (\<exists>evs raw w.
        trace s' = trace s @ evs @ [SendRawTransaction raw] \<and>
        broadcasts evs = 0 \<and> sleeps evs = [] \<and>
        eth_send_raw_transaction w3 raw w = (Inl e, world s'))"

text \<open>
  An attempt that ends because the receipt of its transaction has a status other than 1: the
  node accepted the broadcast and gave the hash \<open>h\<close>, the receipt of \<open>h\<close> was the last call,
  and the exception is \<^verbatim>\<open>Exception(f"Transaction failed: {tx_hash.hex()}")\<close>.
\<close>

definition receipt_failed :: "'w web3 \<Rightarrow> 'w state \<Rightarrow> exn \<Rightarrow> 'w state \<Rightarrow> bool" where
  "receipt_failed w3 s e s' =
     (\<exists>evs raw msg h w0 w1 rc v.
        trace s' = trace s @ evs @
          [SendRawTransaction raw, Log LInfo msg, WaitForTransactionReceipt h] \<and>
        broadcasts evs = 0 \<and> sleeps evs = [] \<and>
        eth_send_raw_transaction w3 raw w0 = (Inr h, w1) \<and>
        eth_wait_for_transaction_receipt w3 h w1 = (Inr rc, world s') \<and>
        rc ''status'' = Some v \<and> v \<noteq> PyInt 1 \<and>
        e = PyException (''Transaction failed: '' @ to_hex w3 h))"

section \<open>Example nodes\<close>

text \<open>
  Concrete nodes on which the program is run below.  The world is the number of broadcasts
  the node has received.  \<open>node_ok\<close> accepts everything: it answers the nonce fetch with the
  number of broadcasts so far, refuses to estimate gas, and confirms every transaction.
\<close>

definition node_ok :: "nat web3" where
  "node_ok =
     \<lparr>to_checksum_address = (\<lambda>a. if startswith a ''0x'' then Inr a
                                  else Inl (ValueError ''invalid address'')),
      to_wei = (\<lambda>x u. Inr \<lfloor>x * 1000000000\<rfloor>),
      to_hex = (\<lambda>h. h),
      account_from_key = (\<lambda>k. if startswith k ''0x'' then Inr (''0xaddr_'' @ k)
                               else Inl (ValueError ''invalid private key'')),
      account_create = (\<lambda>w. ((''0x'' @ replicate 40 CHR ''a'', ''0xfeed''), w)),
      sign_transaction = (\<lambda>t k. Inr ''raw''),
      eth_get_transaction_count = (\<lambda>a w. (Inr (int w), w)),
      eth_get_balance = (\<lambda>a w. (Inr 5, w)),
      eth_estimate_gas = (\<lambda>t w. (Inl (LibraryError ''execution reverted''), w)),
      eth_send_raw_transaction = (\<lambda>raw w. (Inr ''0xhash'', Suc w)),
      eth_wait_for_transaction_receipt = (\<lambda>h w. (Inr [''status'' \<mapsto> PyInt 1], w)),
      balanceOf_call = (\<lambda>c a w. (Inr 100, w)),
      transfer_build_transaction =
        (\<lambda>c to amount d w. (Inr (d(''to'' \<mapsto> PyStr c, ''data'' \<mapsto> PyStr ''transfer'')), w))\<rparr>"


text \<open>A node that rejects every broadcast.\<close>

definition node_rejecting :: "nat web3" where
  "node_rejecting =
     node_ok\<lparr>eth_get_transaction_count := (\<lambda>a w. (Inr 7, w)),
             eth_send_raw_transaction :=
               (\<lambda>raw w. (Inl (LibraryError ''insufficient funds for gas''), Suc w))\<rparr>"

text \<open>A node on which every transaction is included and reverts.\<close>

definition node_reverting :: "nat web3" where
  "node_reverting =
     node_ok\<lparr>eth_wait_for_transaction_receipt :=
       (\<lambda>h w. (Inr [''status'' \<mapsto> PyInt 0], w))\<rparr>"

text \<open>
  A node that refuses every broadcast, each time for another reason, and a node on which
  every transaction reverts, each under a hash of its own.
\<close>

definition node_rejecting_in_turn :: "nat web3" where
  "node_rejecting_in_turn =
     node_ok\<lparr>eth_send_raw_transaction :=
       (\<lambda>raw w. (Inl (LibraryError (if w = 0 then ''nonce too low''
                                    else if w = 1 then ''transaction underpriced''
                                    else ''insufficient funds for gas'')), Suc w))\<rparr>"

definition node_reverting_in_turn :: "nat web3" where
  "node_reverting_in_turn =
     node_ok\<lparr>eth_send_raw_transaction :=
               (\<lambda>raw w. (Inr (if w = 0 then ''0xhash1'' else if w = 1 then ''0xhash2''
                              else ''0xhash3''), Suc w)),
             eth_wait_for_transaction_receipt :=
               (\<lambda>h w. (Inr [''status'' \<mapsto> PyInt 0], w))\<rparr>"



definition cfg0 :: settings where
  "cfg0 = \<lparr>faucet_private_key = ''0xfaucet'', chain_id = 1000, gas_limit = 100000,
           gas_price_gwei = 1 / 10, initial_faucet_gwei = 10\<rparr>"

definition alice :: user where
  "alice = \<lparr>user_name = ''alice'', user_address = ''0xa11ce'', user_private_key = ''0xa''\<rparr>"

definition bob :: user where
  "bob = \<lparr>user_name = ''bob'', user_address = ''0xb0b'', user_private_key = ''0xb''\<rparr>"

definition state0 :: "user list \<Rightarrow> nat state" where
  "state0 rows = \<lparr>world = 0, trace = [], db_rows = rows, db_pending = []\<rparr>"

text \<open>The events of one call of \<open>estimate_gas\<close>, read off its single attempt.\<close>

definition estimate_events :: "'w web3 \<Rightarrow> pydict \<Rightarrow> 'w state \<Rightarrow> event list" where
  "estimate_events w3 t s =
    (case eth_estimate_gas w3 t (world s) of
        (Inl e, w') \<Rightarrow> [EstimateGas t, Log LWarning ''Gas estimation failed, using default'']
      | (Inr gas, w') \<Rightarrow>
          (case int_mul_float gas float_1_2 of
             Inl e \<Rightarrow> [EstimateGas t, Log LWarning ''Gas estimation failed, using default'']
           | Inr x \<Rightarrow>
               (case int_of_float x of
                  Inl e \<Rightarrow> [EstimateGas t, Log LWarning ''Gas estimation failed, using default'']
                | Inr g \<Rightarrow> [EstimateGas t])))"

text \<open>What one attempt of a transfer function may add to the trace.\<close>

definition attempt_ok :: "event list \<Rightarrow> bool" where
  "attempt_ok evs =
     (broadcasts evs \<le> 1 \<and> sleeps evs = [] \<and> broadcasts evs \<le> nonce_fetches evs \<and>
      nonce_fetches evs \<le> 1)"


text \<open>The shape of the dictionary that \<^verbatim>\<open>transfer_erc20\<close> passes to \<^verbatim>\<open>build_transaction\<close>.\<close>

definition gas_field_is_gas_price :: "'w web3 \<Rightarrow> settings \<Rightarrow> pydict \<Rightarrow> bool" where
  "gas_field_is_gas_price w3 cfg d =
     (\<exists>gp. to_wei w3 (gas_price_gwei cfg) ''gwei'' = Inr gp \<and> d ''gas'' = Some (PyInt gp) \<and>
           d ''gasPrice'' = None \<and> dom d = {''from'', ''nonce'', ''gas'', ''chainId''})"

section \<open>Text and bytes\<close>

text \<open>
  In \<^verbatim>\<open>app/utils/crypto.py\<close> the difference between \<^verbatim>\<open>str\<close> and \<^verbatim>\<open>bytes\<close> matters: a
  \<^verbatim>\<open>str\<close> is modelled there as its list of code points (each below \<open>0x110000\<close>; a list
  with a larger element stands for no \<^verbatim>\<open>str\<close>, and encoding refuses it), \<^verbatim>\<open>bytes\<close> as a
  list of \<open>char\<close> (8 bits each).  \<open>utf8_encode\<close> is \<^verbatim>\<open>s.encode("utf-8")\<close>, which refuses a
  surrogate code point; \<open>utf8_decode\<close> is \<^verbatim>\<open>b.decode("utf-8")\<close>, which refuses
  continuation bytes out of place, overlong forms, surrogates and values from
  \<open>0x110000\<close> on.
\<close>

type_synonym pystr = "nat list"

type_synonym bytes = "char list"

definition is_surrogate :: "nat \<Rightarrow> bool" where
  "is_surrogate c = (0xD800 \<le> c \<and> c < 0xE000)"

definition utf8_encode_cp :: "nat \<Rightarrow> exn + bytes" where
  "utf8_encode_cp c =
     (if c < 0x80 then Inr [char_of c]
      else if c < 0x800 then Inr [char_of (0xC0 + c div 64), char_of (0x80 + c mod 64)]
      else if c < 0x10000 then
        (if is_surrogate c then Inl (UnicodeEncodeError ''surrogates not allowed'')
         else Inr [char_of (0xE0 + c div 4096), char_of (0x80 + c div 64 mod 64),
                   char_of (0x80 + c mod 64)])
      else if c < 0x110000 then
        Inr [char_of (0xF0 + c div 262144), char_of (0x80 + c div 4096 mod 64),
             char_of (0x80 + c div 64 mod 64), char_of (0x80 + c mod 64)]
      else Inl (UnicodeEncodeError ''code point not in range(0x110000)''))"

fun utf8_encode :: "pystr \<Rightarrow> exn + bytes" where
  "utf8_encode [] = Inr []"
| "utf8_encode (c # cs) =
     (case utf8_encode_cp c of
        Inl e \<Rightarrow> Inl e
      | Inr bs \<Rightarrow> (case utf8_encode cs of Inl e \<Rightarrow> Inl e | Inr rest \<Rightarrow> Inr (bs @ rest)))"

definition is_continuation :: "char \<Rightarrow> bool" where
  "is_continuation b = (0x80 \<le> (of_char b :: nat) \<and> (of_char b :: nat) < 0xC0)"

definition continuation_bits :: "char \<Rightarrow> nat" where
  "continuation_bits b = of_char b - 0x80"

definition decoded :: "nat \<Rightarrow> exn + pystr \<Rightarrow> exn + pystr" where
  "decoded c r = (case r of Inl e \<Rightarrow> Inl e | Inr cs \<Rightarrow> Inr (c # cs))"

definition invalid_utf8 :: "exn + pystr" where
  "invalid_utf8 = Inl (UnicodeDecodeError ''invalid utf-8'')"

fun utf8_decode :: "bytes \<Rightarrow> exn + pystr" where
  "utf8_decode [] = Inr []"
| "utf8_decode (b0 # bs) =
     (if (of_char b0 :: nat) < 0x80 then decoded (of_char b0) (utf8_decode bs)
      else if 0xC2 \<le> (of_char b0 :: nat) \<and> (of_char b0 :: nat) < 0xE0 then
        (case bs of
           b1 # r \<Rightarrow>
             if is_continuation b1
             then decoded ((of_char b0 - 0xC0) * 64 + continuation_bits b1) (utf8_decode r)
             else invalid_utf8
         | _ \<Rightarrow> invalid_utf8)
      else if 0xE0 \<le> (of_char b0 :: nat) \<and> (of_char b0 :: nat) < 0xF0 then
        (case bs of
           b1 # b2 # r \<Rightarrow>
             if is_continuation b1 \<and> is_continuation b2 then
               (let c = (of_char b0 - 0xE0) * 4096 + continuation_bits b1 * 64 +
                        continuation_bits b2
                in if c < 0x800 \<or> is_surrogate c then invalid_utf8
                   else decoded c (utf8_decode r))
             else invalid_utf8
         | _ \<Rightarrow> invalid_utf8)
      else if 0xF0 \<le> (of_char b0 :: nat) \<and> (of_char b0 :: nat) < 0xF5 then
        (case bs of
           b1 # b2 # b3 # r \<Rightarrow>
             if is_continuation b1 \<and> is_continuation b2 \<and> is_continuation b3 then
               (let c = (of_char b0 - 0xF0) * 262144 + continuation_bits b1 * 4096 +
                        continuation_bits b2 * 64 + continuation_bits b3
                in if c < 0x10000 \<or> 0x110000 \<le> c then invalid_utf8
                   else decoded c (utf8_decode r))
             else invalid_utf8
         | _ \<Rightarrow> invalid_utf8)
      else invalid_utf8)"

section \<open>Encryption of private keys\<close>

text \<open>
  The \<^verbatim>\<open>Fernet\<close> object of the cryptography library, built from
  \<^verbatim>\<open>settings.private_key_encryption_key\<close>.  Neither is code of this repository, so the
  object is a parameter: its key, its \<^verbatim>\<open>encrypt\<close>, which reads the clock and the random
  source of the world, and its \<^verbatim>\<open>decrypt\<close>, which returns the plaintext or raises.
\<close>

record 'w fernet =
  encryption_key :: string
  fernet_encrypt :: "bytes \<Rightarrow> 'w \<Rightarrow> bytes \<times> 'w"
  fernet_decrypt :: "bytes \<Rightarrow> exn + bytes"

definition encrypt_private_key :: "'w fernet \<Rightarrow> pystr \<Rightarrow> 'w \<Rightarrow> (exn + pystr) \<times> 'w" where
  "encrypt_private_key fernet plain_key w =
     (case utf8_encode plain_key of
        Inl e \<Rightarrow> (Inl e, w)
      | Inr bs \<Rightarrow> (case fernet_encrypt fernet bs w of (token, w') \<Rightarrow> (utf8_decode token, w')))"

text \<open>
  \<^verbatim>\<open>decrypt_private_key\<close> first prints the encryption key; the second component of the
  result is what has been written to standard output.
\<close>

definition decrypt_private_key ::
  "'w fernet \<Rightarrow> pystr \<Rightarrow> string list \<Rightarrow> (exn + pystr) \<times> string list" where
  "decrypt_private_key fernet token out =
     (case utf8_encode token of
        Inl e \<Rightarrow> (Inl e, out @ [encryption_key fernet])
      | Inr bs \<Rightarrow>
          (case fernet_decrypt fernet bs of
             Inl InvalidToken \<Rightarrow>
               (Inl (PrivateKeyEncryptionError ''Invalid encryption token for private key''),
                out @ [encryption_key fernet])
           | Inl e \<Rightarrow> (Inl e, out @ [encryption_key fernet])
           | Inr plain \<Rightarrow> (utf8_decode plain, out @ [encryption_key fernet])))"

text \<open>
  A stand-in for Fernet on which the functions can be run: every byte becomes two letters
  from \<open>A\<close> to \<open>P\<close>, and \<open>decrypt\<close> refuses anything else.
\<close>

definition letters_of_byte :: "char \<Rightarrow> bytes" where
  "letters_of_byte b = [char_of (65 + (of_char b :: nat) div 16), char_of (65 + (of_char b :: nat) mod 16)]"

definition is_letter :: "char \<Rightarrow> bool" where
  "is_letter c = (65 \<le> (of_char c :: nat) \<and> (of_char c :: nat) < 81)"

fun bytes_of_letters :: "bytes \<Rightarrow> exn + bytes" where
  "bytes_of_letters [] = Inr []"
| "bytes_of_letters [c] = Inl InvalidToken"
| "bytes_of_letters (c1 # c2 # cs) =
     (if is_letter c1 \<and> is_letter c2 then
        (case bytes_of_letters cs of
           Inl e \<Rightarrow> Inl e
         | Inr bs \<Rightarrow> Inr (char_of (((of_char c1 :: nat) - 65) * 16 + ((of_char c2 :: nat) - 65)) # bs))
      else Inl InvalidToken)"

definition toy_fernet :: "nat fernet" where
  "toy_fernet =
     \<lparr>encryption_key = ''toy key'',
      fernet_encrypt = (\<lambda>m w. (concat (map letters_of_byte m), Suc w)),
      fernet_decrypt = bytes_of_letters\<rparr>"

definition is_ascii :: "char \<Rightarrow> bool" where
  "is_ascii b = ((of_char b :: nat) < 0x80)"

definition encodable :: "pystr \<Rightarrow> bool" where
  "encodable k = list_all (\<lambda>c. c < 0x110000 \<and> \<not> is_surrogate c) k"

text \<open>
  The expression \<^verbatim>\<open>decrypt_private_key(encrypt_private_key(k))\<close>: an exception of the
  inner call is the exception of the whole.
\<close>

definition decrypt_after_encrypt ::
  "'w fernet \<Rightarrow> pystr \<Rightarrow> 'w \<Rightarrow> string list \<Rightarrow> exn + pystr" where
  "decrypt_after_encrypt fernet k w out =
     (case fst (encrypt_private_key fernet k w) of
        Inl e \<Rightarrow> Inl e
      | Inr token \<Rightarrow> fst (decrypt_private_key fernet token out))"

text \<open>
  What the cryptography library promises of a \<^verbatim>\<open>Fernet\<close> object: a token is URL-safe
  base64, hence ASCII, and \<^verbatim>\<open>decrypt\<close> (called without a time to live) returns the message
  of a token that \<^verbatim>\<open>encrypt\<close> made with the same key.
\<close>

definition fernet_correct :: "'w fernet \<Rightarrow> bool" where
  "fernet_correct fernet =
     (\<forall>m w. list_all is_ascii (fst (fernet_encrypt fernet m w)) \<and>
            fernet_decrypt fernet (fst (fernet_encrypt fernet m w)) = Inr m)"

section \<open>The retry decorator unrolled\<close>


lemma retry_loop_run:
  "attempt < max_retries \<Longrightarrow>
   retry_loop max_retries delay func attempt le s =
     (case func s of
        (Inr v, s1) \<Rightarrow> (Inr v, s1)
      | (Inl e, s1) \<Rightarrow>
          retry_loop max_retries delay func (attempt + 1) (Some e)
            (snd ((if attempt < max_retries - 1 then on_retry delay else on_give_up) s1)))"
  by (subst retry_loop.simps) (auto split: prod.splits sum.splits)

lemma retry_loop_exit:
  "\<not> attempt < max_retries \<Longrightarrow>
   retry_loop max_retries delay func attempt le s =
     (case le of
        None \<Rightarrow> (Inl (TypeError ''exceptions must derive from BaseException''), s)
      | Some e \<Rightarrow> (Inl e, s))"
  by (subst retry_loop.simps) simp

lemma async_retry_3:
  "async_retry 3 d f s =
     (case f s of
        (Inr v, s1) \<Rightarrow> (Inr v, s1)
      | (Inl e1, s1) \<Rightarrow>
          (case f (snd (on_retry d s1)) of
             (Inr v, s2) \<Rightarrow> (Inr v, s2)
           | (Inl e2, s2) \<Rightarrow>
               (case f (snd (on_retry d s2)) of
                  (Inr v, s3) \<Rightarrow> (Inr v, s3)
                | (Inl e3, s3) \<Rightarrow> (Inl e3, snd (on_give_up s3)))))"
  by (simp add: async_retry_def retry_loop_run retry_loop_exit split: prod.splits sum.splits)

lemma async_retry_first_ok:
  "f s = (Inr v, s') \<Longrightarrow> async_retry 3 d f s = (Inr v, s')"
  by (simp add: async_retry_3)

lemma on_retry_eq: "on_retry d s = (Inr (), s\<lparr>trace := trace s @ retry_events d\<rparr>)"
  by (simp add: on_retry_def bind_def logger_log_def sleep_def emit_def retry_events_def)

lemma on_give_up_eq: "on_give_up s = (Inr (), s\<lparr>trace := trace s @ give_up_events\<rparr>)"
  by (simp add: on_give_up_def logger_log_def emit_def give_up_events_def)

lemma estimate_gas_attempt_cases:
  "estimate_gas_attempt w3 cfg t s =
     (case eth_estimate_gas w3 t (world s) of
        (Inl e, w') \<Rightarrow>
          (Inr (gas_limit cfg),
           s\<lparr>world := w',
             trace := trace s @ [EstimateGas t, Log LWarning ''Gas estimation failed, using default'']\<rparr>)
      | (Inr gas, w') \<Rightarrow>
          (case int_mul_float gas float_1_2 of
             Inl e \<Rightarrow>
               (Inr (gas_limit cfg),
                s\<lparr>world := w',
                  trace := trace s @ [EstimateGas t, Log LWarning ''Gas estimation failed, using default'']\<rparr>)
           | Inr x \<Rightarrow>
               (case int_of_float x of
                  Inl e \<Rightarrow>
                    (Inr (gas_limit cfg),
                     s\<lparr>world := w',
                       trace := trace s @ [EstimateGas t, Log LWarning ''Gas estimation failed, using default'']\<rparr>)
                | Inr g \<Rightarrow> (Inr g, s\<lparr>world := w', trace := trace s @ [EstimateGas t]\<rparr>))))"
  by (simp add: estimate_gas_attempt_def try_except_def bind_def node_call_def lift_def
      logger_log_def emit_def ret_def split: prod.splits sum.splits)

lemma estimate_gas_attempt_total:
  "\<exists>g s'. estimate_gas_attempt w3 cfg t s = (Inr g, s')"
  by (simp add: estimate_gas_attempt_cases split: prod.splits sum.splits)

lemma estimate_gas_single_attempt:
  "estimate_gas w3 cfg t s = estimate_gas_attempt w3 cfg t s"
proof -
  obtain g s' where "estimate_gas_attempt w3 cfg t s = (Inr g, s')"
    using estimate_gas_attempt_total by blast
  then show ?thesis
    by (simp add: estimate_gas_def async_retry_first_ok)
qed



lemmas io_defs = bind_def lift_def ret_def raise_def node_call_def logger_log_def emit_def
  try_except_def sleep_def Let_def

lemmas count_defs = broadcasts_def nonce_fetches_def sleeps_def

lemma estimate_gas_eq:
  "estimate_gas w3 cfg t s = (Inr (estimated_gas w3 cfg t s), after_estimate w3 cfg t s)"
proof -
  obtain g s' where "estimate_gas_attempt w3 cfg t s = (Inr g, s')"
    using estimate_gas_attempt_total by blast
  then show ?thesis
    by (simp add: estimated_gas_def after_estimate_def estimate_gas_single_attempt)
qed

lemma after_estimate_simps [simp]:
  "trace (after_estimate w3 cfg t s) = trace s @ estimate_events w3 t s"
  "db_rows (after_estimate w3 cfg t s) = db_rows s"
  "db_pending (after_estimate w3 cfg t s) = db_pending s"
  "world (after_estimate w3 cfg t s) = snd (eth_estimate_gas w3 t (world s))"
  by (simp_all add: after_estimate_def estimate_gas_single_attempt estimate_gas_attempt_cases
      estimate_events_def split: prod.splits sum.splits)

lemma estimate_events_cases:
  "estimate_events w3 t s = [EstimateGas t] \<or>
   estimate_events w3 t s = [EstimateGas t, Log LWarning ''Gas estimation failed, using default'']"
  by (simp add: estimate_events_def split: prod.splits sum.splits)

lemma estimate_events_counts [simp]:
  "filter is_broadcast (estimate_events w3 t s) = []"
  "filter is_nonce_fetch (estimate_events w3 t s) = []"
  "filter is_sleep (estimate_events w3 t s) = []"
  using estimate_events_cases[of w3 t s] by auto

lemma send_native_token_attempt_events:
  "\<exists>evs. trace (snd (send_native_token_attempt w3 cfg k to amt s)) = trace s @ evs \<and> attempt_ok evs"
  by (auto simp add: send_native_token_attempt_def io_defs estimate_gas_eq attempt_ok_def count_defs getitem_def
      split: sum.splits prod.splits option.splits)

lemma send_native_token_attempt_db:
  "db_rows (snd (send_native_token_attempt w3 cfg k to amt s)) = db_rows s \<and>
   db_pending (snd (send_native_token_attempt w3 cfg k to amt s)) = db_pending s"
  by (auto simp add: send_native_token_attempt_def io_defs estimate_gas_eq getitem_def
      split: sum.splits prod.splits option.splits)

lemma transfer_erc20_attempt_events:
  "\<exists>evs. trace (snd (transfer_erc20_attempt w3 cfg k to amt tok s)) = trace s @ evs \<and> attempt_ok evs"
  by (auto simp add: transfer_erc20_attempt_def io_defs estimate_gas_eq attempt_ok_def count_defs getitem_def
      split: sum.splits prod.splits option.splits)

lemma async_retry_3_events:
  assumes "\<And>s. \<exists>evs. trace (snd (f s)) = trace s @ evs \<and> Q evs"
  shows "\<exists>a b c. Q a \<and> Q b \<and> Q c \<and>
     ((\<exists>v. fst (async_retry 3 d f s) = Inr v) \<and>
        (new_events (async_retry 3 d f) s = a \<or>
         new_events (async_retry 3 d f) s = a @ retry_events d @ b \<or>
         new_events (async_retry 3 d f) s = a @ retry_events d @ b @ retry_events d @ c)
      \<or> (\<exists>e. fst (async_retry 3 d f s) = Inl e) \<and>
         new_events (async_retry 3 d f) s =
           a @ retry_events d @ b @ retry_events d @ c @ give_up_events)"
proof -
  obtain r1 s1 where f1: "f s = (r1, s1)" by (cases "f s")
  obtain a where a: "trace s1 = trace s @ a" "Q a" using assms[of s] f1 by auto
  let ?s1 = "snd (on_retry d s1)"
  obtain r2 s2 where f2: "f ?s1 = (r2, s2)" by (cases "f ?s1")
  obtain b where b: "trace s2 = trace ?s1 @ b" "Q b" using assms[of ?s1] f2 by auto
  let ?s2 = "snd (on_retry d s2)"
  obtain r3 s3 where f3: "f ?s2 = (r3, s3)" by (cases "f ?s2")
  obtain c where c: "trace s3 = trace ?s2 @ c" "Q c" using assms[of ?s2] f3 by auto
  show ?thesis
    apply (rule exI[of _ a], rule exI[of _ b], rule exI[of _ c])
    using f1 f2 f3 a b c
    by (cases r1; cases r2; cases r3)
       (simp_all add: async_retry_3 new_events_def on_retry_eq on_give_up_eq)
qed


section \<open>Submissions under the retry decorator\<close>


lemma three_failed_attempts_run:
  assumes "\<And>s. \<exists>e s'. f s = (Inl e, s') \<and> cause s e s'"
  shows "three_failed_attempts cause f (async_retry 3 (Finite 2) f) s"
proof -
  obtain e1 s1 where f1: "f s = (Inl e1, s1)" "cause s e1 s1"
    using assms[of s] by blast
  let ?s1 = "snd (on_retry (Finite 2) s1)"
  obtain e2 s2 where f2: "f ?s1 = (Inl e2, s2)" "cause ?s1 e2 s2"
    using assms[of ?s1] by blast
  let ?s2 = "snd (on_retry (Finite 2) s2)"
  obtain e3 s3 where f3: "f ?s2 = (Inl e3, s3)" "cause ?s2 e3 s3"
    using assms[of ?s2] by blast
  have "async_retry 3 (Finite 2) f s = (Inl e3, snd (on_give_up s3))"
    using f1(1) f2(1) f3(1) by (simp add: async_retry_3)
  with f1 f2 f3 show ?thesis
    unfolding three_failed_attempts_def by blast
qed

lemma three_failed_attempts_events:
  assumes "\<And>s. \<exists>e s' evs. f s = (Inl e, s') \<and> trace s' = trace s @ evs \<and>
                   broadcasts evs = 1 \<and> sleeps evs = []"
  shows "broadcasts (new_events (async_retry 3 d f) s) = 3 \<and>
         sleeps (new_events (async_retry 3 d f) s) = [Sleep d, Sleep d]"
proof -
  obtain e1 s1 a where f1: "f s = (Inl e1, s1)" "trace s1 = trace s @ a"
      "broadcasts a = 1" "sleeps a = []"
    using assms[of s] by blast
  let ?s1 = "snd (on_retry d s1)"
  obtain e2 s2 b where f2: "f ?s1 = (Inl e2, s2)" "trace s2 = trace ?s1 @ b"
      "broadcasts b = 1" "sleeps b = []"
    using assms[of ?s1] by blast
  let ?s2 = "snd (on_retry d s2)"
  obtain e3 s3 c where f3: "f ?s2 = (Inl e3, s3)" "trace s3 = trace ?s2 @ c"
      "broadcasts c = 1" "sleeps c = []"
    using assms[of ?s2] by blast
  show ?thesis
    using f1 f2 f3
    by (simp add: async_retry_3 new_events_def on_retry_eq on_give_up_eq count_defs
        retry_events_def give_up_events_def)
qed

lemma broadcast_rejected_events:
  "broadcast_rejected w3 s e s' \<Longrightarrow>
     \<exists>evs. trace s' = trace s @ evs \<and> broadcasts evs = 1 \<and> sleeps evs = []"
  unfolding broadcast_rejected_def
  by (elim exE conjE, rule_tac x = "evs @ [SendRawTransaction raw]" in exI)
     (simp add: count_defs)

lemma receipt_failed_events:
  "receipt_failed w3 s e s' \<Longrightarrow>
     \<exists>evs. trace s' = trace s @ evs \<and> broadcasts evs = 1 \<and> sleeps evs = []"
  unfolding receipt_failed_def
  by (elim exE conjE, rule_tac x = "evs @ [SendRawTransaction raw, Log LInfo msg,
        WaitForTransactionReceipt h]" in exI)
     (simp add: count_defs)

lemma send_native_token_attempt_rejected:
  assumes key: "account_from_key w3 k = Inr a"
    and addr: "to_checksum_address w3 to = Inr c"
    and nonce: "\<And>w. \<exists>n w'. eth_get_transaction_count w3 a w = (Inr n, w')"
    and wei: "to_wei w3 (gas_price_gwei cfg) ''gwei'' = Inr gp"
    and sign: "\<And>t. \<exists>raw. sign_transaction w3 t k = Inr raw"
    and rejected: "\<And>raw w. \<exists>e w'. eth_send_raw_transaction w3 raw w = (Inl e, w')"
  shows "\<exists>e s'. send_native_token_attempt w3 cfg k to amt s = (Inl e, s') \<and>
           broadcast_rejected w3 s e s'"
proof -
  obtain n w1 where n: "eth_get_transaction_count w3 a (world s) = (Inr n, w1)"
    using nonce by blast
  let ?s1 = "s\<lparr>world := w1, trace := trace s @ [GetTransactionCount a]\<rparr>"
  let ?t = "native_transaction cfg n c amt gp"
  let ?s2 = "after_estimate w3 cfg ?t ?s1"
  obtain raw where raw:
    "sign_transaction w3 (?t(''gas'' \<mapsto> PyInt (estimated_gas w3 cfg ?t ?s1))) k = Inr raw"
    using sign by blast
  obtain e w2 where e: "eth_send_raw_transaction w3 raw (world ?s2) = (Inl e, w2)"
    using rejected by blast
  let ?s3 = "?s2\<lparr>world := w2, trace := trace ?s2 @ [SendRawTransaction raw]\<rparr>"
  have run: "send_native_token_attempt w3 cfg k to amt s = (Inl e, ?s3)"
    using key addr n wei raw e
    by (simp add: send_native_token_attempt_def io_defs estimate_gas_eq)
  have "broadcast_rejected w3 s e ?s3"
    unfolding broadcast_rejected_def
    apply (rule exI[of _ "[GetTransactionCount a] @ estimate_events w3 ?t ?s1"])
    apply (rule exI[of _ raw], rule exI[of _ "world ?s2"])
    using e by (simp add: count_defs)
  with run show ?thesis by blast
qed

lemma transfer_erc20_attempt_rejected:
  assumes key: "account_from_key w3 k = Inr a"
    and contract: "get_contract w3 tok = Inr ct"
    and addr: "to_checksum_address w3 to = Inr c"
    and nonce: "\<And>w. \<exists>n w'. eth_get_transaction_count w3 a w = (Inr n, w')"
    and wei: "to_wei w3 (gas_price_gwei cfg) ''gwei'' = Inr gp"
    and build: "\<And>d w. \<exists>tx w'. transfer_build_transaction w3 ct c amt d w = (Inr tx, w')"
    and sign: "\<And>t. \<exists>raw. sign_transaction w3 t k = Inr raw"
    and rejected: "\<And>raw w. \<exists>e w'. eth_send_raw_transaction w3 raw w = (Inl e, w')"
  shows "\<exists>e s'. transfer_erc20_attempt w3 cfg k to amt tok s = (Inl e, s') \<and>
           broadcast_rejected w3 s e s'"
proof -
  obtain n w1 where n: "eth_get_transaction_count w3 a (world s) = (Inr n, w1)"
    using nonce by blast
  let ?d = "[''from'' \<mapsto> PyStr a, ''nonce'' \<mapsto> PyInt n, ''gas'' \<mapsto> PyInt gp,
             ''chainId'' \<mapsto> PyInt (chain_id cfg)]"
  obtain tx w2 where tx: "transfer_build_transaction w3 ct c amt ?d w1 = (Inr tx, w2)"
    using build by blast
  let ?s2 = "s\<lparr>world := w2,
               trace := trace s @ [GetTransactionCount a, BuildTransaction ct c amt ?d]\<rparr>"
  let ?s3 = "after_estimate w3 cfg tx ?s2"
  obtain raw where raw:
    "sign_transaction w3 (tx(''gas'' \<mapsto> PyInt (estimated_gas w3 cfg tx ?s2))) k = Inr raw"
    using sign by blast
  obtain e w4 where e: "eth_send_raw_transaction w3 raw (world ?s3) = (Inl e, w4)"
    using rejected by blast
  let ?s4 = "?s3\<lparr>world := w4, trace := trace ?s3 @ [SendRawTransaction raw]\<rparr>"
  have run: "transfer_erc20_attempt w3 cfg k to amt tok s = (Inl e, ?s4)"
    using key contract addr n wei tx raw e
    by (simp add: transfer_erc20_attempt_def io_defs estimate_gas_eq)
  have "broadcast_rejected w3 s e ?s4"
    unfolding broadcast_rejected_def
    apply (rule exI[of _ "[GetTransactionCount a, BuildTransaction ct c amt ?d] @
                          estimate_events w3 tx ?s2"])
    apply (rule exI[of _ raw], rule exI[of _ "world ?s3"])
    using e by (simp add: count_defs)
  with run show ?thesis by blast
qed

lemma send_native_token_attempt_reverted:
  assumes key: "account_from_key w3 k = Inr a"
    and addr: "to_checksum_address w3 to = Inr c"
    and nonce: "\<And>w. \<exists>n w'. eth_get_transaction_count w3 a w = (Inr n, w')"
    and wei: "to_wei w3 (gas_price_gwei cfg) ''gwei'' = Inr gp"
    and sign: "\<And>t. \<exists>raw. sign_transaction w3 t k = Inr raw"
    and accepted: "\<And>raw w. \<exists>h w'. eth_send_raw_transaction w3 raw w = (Inr h, w')"
    and reverted: "\<And>h w. \<exists>rc w' v. eth_wait_for_transaction_receipt w3 h w = (Inr rc, w') \<and>
                      rc ''status'' = Some v \<and> v \<noteq> PyInt 1"
  shows "\<exists>e s'. send_native_token_attempt w3 cfg k to amt s = (Inl e, s') \<and>
           receipt_failed w3 s e s'"
proof -
  obtain n w1 where n: "eth_get_transaction_count w3 a (world s) = (Inr n, w1)"
    using nonce by blast
  let ?s1 = "s\<lparr>world := w1, trace := trace s @ [GetTransactionCount a]\<rparr>"
  let ?t = "native_transaction cfg n c amt gp"
  let ?s2 = "after_estimate w3 cfg ?t ?s1"
  obtain raw where raw:
    "sign_transaction w3 (?t(''gas'' \<mapsto> PyInt (estimated_gas w3 cfg ?t ?s1))) k = Inr raw"
    using sign by blast
  obtain h w2 where h: "eth_send_raw_transaction w3 raw (world ?s2) = (Inr h, w2)"
    using accepted by blast
  obtain rc w3' v where rc: "eth_wait_for_transaction_receipt w3 h w2 = (Inr rc, w3')"
      "rc ''status'' = Some v" "v \<noteq> PyInt 1"
    using reverted by blast
  let ?evs = "[SendRawTransaction raw, Log LInfo ''Native token sent'',
               WaitForTransactionReceipt h]"
  let ?s3 = "?s2\<lparr>world := w3', trace := trace ?s2 @ ?evs\<rparr>"
  have run: "send_native_token_attempt w3 cfg k to amt s =
               (Inl (PyException (''Transaction failed: '' @ to_hex w3 h)), ?s3)"
    using key addr n wei raw h rc
    by (simp add: send_native_token_attempt_def io_defs estimate_gas_eq getitem_def)
  have "receipt_failed w3 s (PyException (''Transaction failed: '' @ to_hex w3 h)) ?s3"
    unfolding receipt_failed_def
    apply (rule exI[of _ "[GetTransactionCount a] @ estimate_events w3 ?t ?s1"])
    apply (rule exI[of _ raw], rule exI[of _ "''Native token sent''"], rule exI[of _ h])
    apply (rule exI[of _ "world ?s2"], rule exI[of _ w2], rule exI[of _ rc], rule exI[of _ v])
    using h rc by (simp add: count_defs)
  with run show ?thesis by blast
qed

lemma transfer_erc20_attempt_reverted:
  assumes key: "account_from_key w3 k = Inr a"
    and contract: "get_contract w3 tok = Inr ct"
    and addr: "to_checksum_address w3 to = Inr c"
    and nonce: "\<And>w. \<exists>n w'. eth_get_transaction_count w3 a w = (Inr n, w')"
    and wei: "to_wei w3 (gas_price_gwei cfg) ''gwei'' = Inr gp"
    and build: "\<And>d w. \<exists>tx w'. transfer_build_transaction w3 ct c amt d w = (Inr tx, w')"
    and sign: "\<And>t. \<exists>raw. sign_transaction w3 t k = Inr raw"
    and accepted: "\<And>raw w. \<exists>h w'. eth_send_raw_transaction w3 raw w = (Inr h, w')"
    and reverted: "\<And>h w. \<exists>rc w' v. eth_wait_for_transaction_receipt w3 h w = (Inr rc, w') \<and>
                      rc ''status'' = Some v \<and> v \<noteq> PyInt 1"
  shows "\<exists>e s'. transfer_erc20_attempt w3 cfg k to amt tok s = (Inl e, s') \<and>
           receipt_failed w3 s e s'"
proof -
  obtain n w1 where n: "eth_get_transaction_count w3 a (world s) = (Inr n, w1)"
    using nonce by blast
  let ?d = "[''from'' \<mapsto> PyStr a, ''nonce'' \<mapsto> PyInt n, ''gas'' \<mapsto> PyInt gp,
             ''chainId'' \<mapsto> PyInt (chain_id cfg)]"
  obtain tx w2 where tx: "transfer_build_transaction w3 ct c amt ?d w1 = (Inr tx, w2)"
    using build by blast
  let ?s2 = "s\<lparr>world := w2,
               trace := trace s @ [GetTransactionCount a, BuildTransaction ct c amt ?d]\<rparr>"
  let ?s3 = "after_estimate w3 cfg tx ?s2"
  obtain raw where raw:
    "sign_transaction w3 (tx(''gas'' \<mapsto> PyInt (estimated_gas w3 cfg tx ?s2))) k = Inr raw"
    using sign by blast
  obtain h w4 where h: "eth_send_raw_transaction w3 raw (world ?s3) = (Inr h, w4)"
    using accepted by blast
  obtain rc w5 v where rc: "eth_wait_for_transaction_receipt w3 h w4 = (Inr rc, w5)"
      "rc ''status'' = Some v" "v \<noteq> PyInt 1"
    using reverted by blast
  let ?evs = "[SendRawTransaction raw, Log LInfo ''ERC20 transfer sent'',
               WaitForTransactionReceipt h]"
  let ?s5 = "?s3\<lparr>world := w5, trace := trace ?s3 @ ?evs\<rparr>"
  have run: "transfer_erc20_attempt w3 cfg k to amt tok s =
               (Inl (PyException (''Transaction failed: '' @ to_hex w3 h)), ?s5)"
    using key contract addr n wei tx raw h rc
    by (simp add: transfer_erc20_attempt_def io_defs estimate_gas_eq getitem_def)
  have "receipt_failed w3 s (PyException (''Transaction failed: '' @ to_hex w3 h)) ?s5"
    unfolding receipt_failed_def
    apply (rule exI[of _ "[GetTransactionCount a, BuildTransaction ct c amt ?d] @
                          estimate_events w3 tx ?s2"])
    apply (rule exI[of _ raw], rule exI[of _ "''ERC20 transfer sent''"], rule exI[of _ h])
    apply (rule exI[of _ "world ?s3"], rule exI[of _ w4], rule exI[of _ rc], rule exI[of _ v])
    using h rc by (simp add: count_defs)
  with run show ?thesis by blast
qed

lemma rejected_run:
  assumes "\<And>s. \<exists>e s'. f s = (Inl e, s') \<and> broadcast_rejected w3 s e s'"
  shows "three_failed_attempts (broadcast_rejected w3) f (async_retry 3 (Finite 2) f) s \<and>
         broadcasts (new_events (async_retry 3 (Finite 2) f) s) = 3 \<and>
         sleeps (new_events (async_retry 3 (Finite 2) f) s) = [Sleep (Finite 2), Sleep (Finite 2)]"
proof -
  have "\<exists>e s' evs. f s = (Inl e, s') \<and> trace s' = trace s @ evs \<and>
                   broadcasts evs = 1 \<and> sleeps evs = []" for s
    using assms[of s] broadcast_rejected_events[of w3 s] by blast
  then show ?thesis
    using three_failed_attempts_run[where f = f and cause = "broadcast_rejected w3" and s = s, OF assms]
      three_failed_attempts_events[where f = f and s = s and d = "Finite 2"]
    by blast
qed

lemma reverted_run:
  assumes "\<And>s. \<exists>e s'. f s = (Inl e, s') \<and> receipt_failed w3 s e s'"
  shows "three_failed_attempts (receipt_failed w3) f (async_retry 3 (Finite 2) f) s \<and>
         broadcasts (new_events (async_retry 3 (Finite 2) f) s) = 3 \<and>
         sleeps (new_events (async_retry 3 (Finite 2) f) s) = [Sleep (Finite 2), Sleep (Finite 2)]"
proof -
  have "\<exists>e s' evs. f s = (Inl e, s') \<and> trace s' = trace s @ evs \<and>
                   broadcasts evs = 1 \<and> sleeps evs = []" for s
    using assms[of s] receipt_failed_events[of w3 s] by blast
  then show ?thesis
    using three_failed_attempts_run[where f = f and cause = "receipt_failed w3" and s = s, OF assms]
      three_failed_attempts_events[where f = f and s = s and d = "Finite 2"]
    by blast
qed

lemmas eval_defs = async_retry_3 io_defs
      on_retry_eq on_give_up_eq estimate_gas_single_attempt estimate_gas_attempt_cases
      node_ok_def cfg0_def state0_def startswith_def retry_events_def
      give_up_events_def getitem_def new_events_def count_defs native_transaction_def

text \<open>
  Claim C1.  A submission, native or token, is the decorated function with three attempts
  and a delay of 2: when an attempt raises, the whole attempt function is run again from its
  first step after one warning and one sleep of exactly 2; a third failure is logged and its
  exception is the one returned.  A run makes at most three broadcasts, and its sleeps are
  at most two, each of 2.
\<close>

theorem retry_policy_three_attempts:
  "send_native_token w3 cfg k to amt (s :: 'w state) =
     (case send_native_token_attempt w3 cfg k to amt s of
        (Inr h, s1) \<Rightarrow> (Inr h, s1)
      | (Inl e1, s1) \<Rightarrow>
          (case send_native_token_attempt w3 cfg k to amt (snd (on_retry (Finite 2) s1)) of
             (Inr h, s2) \<Rightarrow> (Inr h, s2)
           | (Inl e2, s2) \<Rightarrow>
               (case send_native_token_attempt w3 cfg k to amt (snd (on_retry (Finite 2) s2)) of
                  (Inr h, s3) \<Rightarrow> (Inr h, s3)
                | (Inl e3, s3) \<Rightarrow> (Inl e3, snd (on_give_up s3)))))
   \<and> broadcasts (new_events (send_native_token w3 cfg k to amt) s) \<le> 3
   \<and> (\<exists>n\<le>2. sleeps (new_events (send_native_token w3 cfg k to amt) s) = replicate n (Sleep (Finite 2)))
   \<and> transfer_erc20 w3 cfg k to amt tok s =
     (case transfer_erc20_attempt w3 cfg k to amt tok s of
        (Inr h, s1) \<Rightarrow> (Inr h, s1)
      | (Inl e1, s1) \<Rightarrow>
          (case transfer_erc20_attempt w3 cfg k to amt tok (snd (on_retry (Finite 2) s1)) of
             (Inr h, s2) \<Rightarrow> (Inr h, s2)
           | (Inl e2, s2) \<Rightarrow>
               (case transfer_erc20_attempt w3 cfg k to amt tok (snd (on_retry (Finite 2) s2)) of
                  (Inr h, s3) \<Rightarrow> (Inr h, s3)
                | (Inl e3, s3) \<Rightarrow> (Inl e3, snd (on_give_up s3)))))
   \<and> broadcasts (new_events (transfer_erc20 w3 cfg k to amt tok) s) \<le> 3
   \<and> (\<exists>n\<le>2. sleeps (new_events (transfer_erc20 w3 cfg k to amt tok) s) = replicate n (Sleep (Finite 2)))"
proof -
  have count: "broadcasts (new_events (async_retry 3 (Finite 2) f) s) \<le> 3 \<and>
      (\<exists>n\<le>2. sleeps (new_events (async_retry 3 (Finite 2) f) s) = replicate n (Sleep (Finite 2)))"
    if f: "\<And>s. \<exists>evs. trace (snd (f s)) = trace s @ evs \<and> attempt_ok evs"
    for f :: "('w, string) io"
  proof -
    obtain a b c where abc: "attempt_ok a" "attempt_ok b" "attempt_ok c"
      and shape: "new_events (async_retry 3 (Finite 2) f) s = a \<or>
         new_events (async_retry 3 (Finite 2) f) s = a @ retry_events (Finite 2) @ b \<or>
         new_events (async_retry 3 (Finite 2) f) s = a @ retry_events (Finite 2) @ b @ retry_events (Finite 2) @ c \<or>
         new_events (async_retry 3 (Finite 2) f) s =
           a @ retry_events (Finite 2) @ b @ retry_events (Finite 2) @ c @ give_up_events"
      using async_retry_3_events[of f attempt_ok "Finite 2" s, OF f] by blast
    have bc: "broadcasts (new_events (async_retry 3 (Finite 2) f) s) \<le> 3"
      using abc shape
      by (auto simp add: attempt_ok_def count_defs retry_events_def give_up_events_def)
    have "sleeps (new_events (async_retry 3 (Finite 2) f) s) = replicate 0 (Sleep (Finite 2)) \<or>
          sleeps (new_events (async_retry 3 (Finite 2) f) s) = replicate 1 (Sleep (Finite 2)) \<or>
          sleeps (new_events (async_retry 3 (Finite 2) f) s) = replicate 2 (Sleep (Finite 2))"
      using abc shape
      by (auto simp add: attempt_ok_def count_defs retry_events_def give_up_events_def numeral_2_eq_2)
    then have "\<exists>n\<le>2. sleeps (new_events (async_retry 3 (Finite 2) f) s) = replicate n (Sleep (Finite 2))"
      by (metis le_refl one_le_numeral zero_le)
    with bc show ?thesis by blast
  qed
  show ?thesis
    using count[of "send_native_token_attempt w3 cfg k to amt", OF send_native_token_attempt_events]
      count[of "transfer_erc20_attempt w3 cfg k to amt tok", OF transfer_erc20_attempt_events]
    unfolding send_native_token_def transfer_erc20_def
    by (simp only: async_retry_3[symmetric] simp_thms)
qed

text \<open>
  Claim C3 fails on the code: on a node that rejects every broadcast the error is not
  surfaced after one broadcast; three broadcasts are made.
\<close>

theorem rejected_broadcast_counterexample:
  "fst (send_native_token node_rejecting cfg0 ''0xfaucet'' ''0xa11ce'' 5 (state0 [])) =
     Inl (LibraryError ''insufficient funds for gas'') \<and>
   broadcasts (new_events (send_native_token node_rejecting cfg0 ''0xfaucet'' ''0xa11ce'' 5)
     (state0 [])) = 3"
  by (simp add: send_native_token_def send_native_token_attempt_def node_rejecting_def eval_defs)

text \<open>
  Claim C3, amended.  The decorator does not tell a rejection from any other exception.  When
  the local steps and the nonce fetch succeed and the node rejects every broadcast, a
  submission, native or token, runs its attempt three times; every attempt ends with its one
  broadcast being refused; between two attempts there is one sleep of 2; and the exception
  returned is the node's answer to the third broadcast.
\<close>

theorem rejected_broadcast_is_retried:
  assumes key: "account_from_key w3 k = Inr a"
    and addr: "to_checksum_address w3 to = Inr c"
    and nonce: "\<And>w. \<exists>n w'. eth_get_transaction_count w3 a w = (Inr n, w')"
    and wei: "to_wei w3 (gas_price_gwei cfg) ''gwei'' = Inr gp"
    and sign: "\<And>t. \<exists>raw. sign_transaction w3 t k = Inr raw"
    and rejected: "\<And>raw w. \<exists>e w'. eth_send_raw_transaction w3 raw w = (Inl e, w')"
  shows "three_failed_attempts (broadcast_rejected w3)
           (send_native_token_attempt w3 cfg k to amt) (send_native_token w3 cfg k to amt) s
       \<and> broadcasts (new_events (send_native_token w3 cfg k to amt) s) = 3
       \<and> sleeps (new_events (send_native_token w3 cfg k to amt) s) =
           [Sleep (Finite 2), Sleep (Finite 2)]
       \<and> ((\<exists>ct. get_contract w3 tok = Inr ct \<and>
             (\<forall>d w. \<exists>tx w'. transfer_build_transaction w3 ct c amt d w = (Inr tx, w'))) \<longrightarrow>
           three_failed_attempts (broadcast_rejected w3)
             (transfer_erc20_attempt w3 cfg k to amt tok) (transfer_erc20 w3 cfg k to amt tok) s
           \<and> broadcasts (new_events (transfer_erc20 w3 cfg k to amt tok) s) = 3
           \<and> sleeps (new_events (transfer_erc20 w3 cfg k to amt tok) s) =
               [Sleep (Finite 2), Sleep (Finite 2)])"
proof -
  have native: "three_failed_attempts (broadcast_rejected w3)
           (send_native_token_attempt w3 cfg k to amt) (send_native_token w3 cfg k to amt) s
       \<and> broadcasts (new_events (send_native_token w3 cfg k to amt) s) = 3
       \<and> sleeps (new_events (send_native_token w3 cfg k to amt) s) =
           [Sleep (Finite 2), Sleep (Finite 2)]"
    unfolding send_native_token_def
    by (rule rejected_run) (rule send_native_token_attempt_rejected[OF assms])
  have token: "three_failed_attempts (broadcast_rejected w3)
             (transfer_erc20_attempt w3 cfg k to amt tok) (transfer_erc20 w3 cfg k to amt tok) s
           \<and> broadcasts (new_events (transfer_erc20 w3 cfg k to amt tok) s) = 3
           \<and> sleeps (new_events (transfer_erc20 w3 cfg k to amt tok) s) =
               [Sleep (Finite 2), Sleep (Finite 2)]"
    if ct: "get_contract w3 tok = Inr ct"
      and build: "\<forall>d w. \<exists>tx w'. transfer_build_transaction w3 ct c amt d w = (Inr tx, w')"
    for ct
    unfolding transfer_erc20_def
  proof (rule rejected_run)
    fix s' :: "'a state"
    show "\<exists>e s''. transfer_erc20_attempt w3 cfg k to amt tok s' = (Inl e, s'') \<and>
            broadcast_rejected w3 s' e s''"
      using build
      by (intro transfer_erc20_attempt_rejected[OF key ct addr nonce wei _ sign rejected]) simp
  qed
  from native token show ?thesis by blast
qed

theorem rejected_broadcast_is_retried_witness:
  "fst (send_native_token node_rejecting_in_turn cfg0 ''0xfaucet'' ''0xb0b'' 9 (state0 [alice])) =
     Inl (LibraryError ''insufficient funds for gas'')
   \<and> three_failed_attempts (broadcast_rejected node_rejecting_in_turn)
       (send_native_token_attempt node_rejecting_in_turn cfg0 ''0xfaucet'' ''0xb0b'' 9)
       (send_native_token node_rejecting_in_turn cfg0 ''0xfaucet'' ''0xb0b'' 9) (state0 [alice])
   \<and> broadcasts (new_events (send_native_token node_rejecting_in_turn cfg0 ''0xfaucet'' ''0xb0b'' 9)
       (state0 [alice])) = 3
   \<and> sleeps (new_events (send_native_token node_rejecting_in_turn cfg0 ''0xfaucet'' ''0xb0b'' 9)
       (state0 [alice])) = [Sleep (Finite 2), Sleep (Finite 2)]
   \<and> fst (transfer_erc20 node_rejecting_in_turn cfg0 ''0xfaucet'' ''0xb0b'' 9 ''0xtoken''
       (state0 [alice])) = Inl (LibraryError ''insufficient funds for gas'')
   \<and> three_failed_attempts (broadcast_rejected node_rejecting_in_turn)
       (transfer_erc20_attempt node_rejecting_in_turn cfg0 ''0xfaucet'' ''0xb0b'' 9 ''0xtoken'')
       (transfer_erc20 node_rejecting_in_turn cfg0 ''0xfaucet'' ''0xb0b'' 9 ''0xtoken'')
       (state0 [alice])
   \<and> broadcasts (new_events
       (transfer_erc20 node_rejecting_in_turn cfg0 ''0xfaucet'' ''0xb0b'' 9 ''0xtoken'')
       (state0 [alice])) = 3
   \<and> sleeps (new_events
       (transfer_erc20 node_rejecting_in_turn cfg0 ''0xfaucet'' ''0xb0b'' 9 ''0xtoken'')
       (state0 [alice])) = [Sleep (Finite 2), Sleep (Finite 2)]"
proof -
  have native: "fst (send_native_token node_rejecting_in_turn cfg0 ''0xfaucet'' ''0xb0b'' 9
      (state0 [alice])) = Inl (LibraryError ''insufficient funds for gas'')"
    by (simp add: send_native_token_def send_native_token_attempt_def
        node_rejecting_in_turn_def eval_defs)
  have token: "fst (transfer_erc20 node_rejecting_in_turn cfg0 ''0xfaucet'' ''0xb0b'' 9 ''0xtoken''
      (state0 [alice])) = Inl (LibraryError ''insufficient funds for gas'')"
    by (simp add: transfer_erc20_def transfer_erc20_attempt_def get_contract_def
        node_rejecting_in_turn_def eval_defs)
  have build: "\<exists>ct. get_contract node_rejecting_in_turn ''0xtoken'' = Inr ct \<and>
      (\<forall>d w. \<exists>tx w'. transfer_build_transaction node_rejecting_in_turn ct ''0xb0b'' 9 d w =
         (Inr tx, w'))"
    by (simp add: get_contract_def node_rejecting_in_turn_def node_ok_def startswith_def)
  have run: "three_failed_attempts (broadcast_rejected node_rejecting_in_turn)
       (send_native_token_attempt node_rejecting_in_turn cfg0 ''0xfaucet'' ''0xb0b'' 9)
       (send_native_token node_rejecting_in_turn cfg0 ''0xfaucet'' ''0xb0b'' 9) (state0 [alice])
   \<and> broadcasts (new_events (send_native_token node_rejecting_in_turn cfg0 ''0xfaucet'' ''0xb0b'' 9)
       (state0 [alice])) = 3
   \<and> sleeps (new_events (send_native_token node_rejecting_in_turn cfg0 ''0xfaucet'' ''0xb0b'' 9)
       (state0 [alice])) = [Sleep (Finite 2), Sleep (Finite 2)]
   \<and> ((\<exists>ct. get_contract node_rejecting_in_turn ''0xtoken'' = Inr ct \<and>
      (\<forall>d w. \<exists>tx w'. transfer_build_transaction node_rejecting_in_turn ct ''0xb0b'' 9 d w =
         (Inr tx, w'))) \<longrightarrow>
   three_failed_attempts (broadcast_rejected node_rejecting_in_turn)
       (transfer_erc20_attempt node_rejecting_in_turn cfg0 ''0xfaucet'' ''0xb0b'' 9 ''0xtoken'')
       (transfer_erc20 node_rejecting_in_turn cfg0 ''0xfaucet'' ''0xb0b'' 9 ''0xtoken'')
       (state0 [alice])
   \<and> broadcasts (new_events
       (transfer_erc20 node_rejecting_in_turn cfg0 ''0xfaucet'' ''0xb0b'' 9 ''0xtoken'')
       (state0 [alice])) = 3
   \<and> sleeps (new_events
       (transfer_erc20 node_rejecting_in_turn cfg0 ''0xfaucet'' ''0xb0b'' 9 ''0xtoken'')
       (state0 [alice])) = [Sleep (Finite 2), Sleep (Finite 2)])"
    by (rule rejected_broadcast_is_retried[where a = "''0xaddr_0xfaucet''" and c = "''0xb0b''"
          and gp = 100000000])
       (simp_all add: node_rejecting_in_turn_def node_ok_def cfg0_def startswith_def)
  from run build native token show ?thesis by blast
qed

section \<open>Reverted transactions\<close>


text \<open>
  Claim C4 fails on the code: when every receipt reports failure, the submission does not
  stop after the first one.  It raises a plain \<^verbatim>\<open>Exception\<close> (the code has no
  \<^verbatim>\<open>TransactionRevertedError\<close>), the decorator retries it, and three transactions are
  broadcast.
\<close>

theorem reverted_receipt_counterexample:
  "fst (send_native_token node_reverting cfg0 ''0xfaucet'' ''0xa11ce'' 5 (state0 [])) =
     Inl (PyException ''Transaction failed: 0xhash'') \<and>
   broadcasts (new_events (send_native_token node_reverting cfg0 ''0xfaucet'' ''0xa11ce'' 5)
     (state0 [])) = 3"
  by (simp add: send_native_token_def send_native_token_attempt_def node_reverting_def eval_defs)

text \<open>
  Claim C4, amended.  A receipt whose status is not 1 makes the attempt raise
  \<^verbatim>\<open>Exception("Transaction failed: <hash>")\<close>, which the decorator retries like any other
  exception.  When the earlier steps succeed and every receipt reports a status other than
  1, a submission, native or token, runs its attempt three times; every attempt broadcasts
  one transaction and ends on its receipt; between two attempts there is one sleep of 2; and
  the exception returned is the one of the third attempt, with the hash of the third
  transaction.
\<close>

theorem reverted_receipt_is_retried:
  assumes key: "account_from_key w3 k = Inr a"
    and addr: "to_checksum_address w3 to = Inr c"
    and nonce: "\<And>w. \<exists>n w'. eth_get_transaction_count w3 a w = (Inr n, w')"
    and wei: "to_wei w3 (gas_price_gwei cfg) ''gwei'' = Inr gp"
    and sign: "\<And>t. \<exists>raw. sign_transaction w3 t k = Inr raw"
    and accepted: "\<And>raw w. \<exists>h w'. eth_send_raw_transaction w3 raw w = (Inr h, w')"
    and reverted: "\<And>h w. \<exists>rc w' v. eth_wait_for_transaction_receipt w3 h w = (Inr rc, w') \<and>
                      rc ''status'' = Some v \<and> v \<noteq> PyInt 1"
  shows "three_failed_attempts (receipt_failed w3)
           (send_native_token_attempt w3 cfg k to amt) (send_native_token w3 cfg k to amt) s
       \<and> broadcasts (new_events (send_native_token w3 cfg k to amt) s) = 3
       \<and> sleeps (new_events (send_native_token w3 cfg k to amt) s) =
           [Sleep (Finite 2), Sleep (Finite 2)]
       \<and> ((\<exists>ct. get_contract w3 tok = Inr ct \<and>
             (\<forall>d w. \<exists>tx w'. transfer_build_transaction w3 ct c amt d w = (Inr tx, w'))) \<longrightarrow>
           three_failed_attempts (receipt_failed w3)
             (transfer_erc20_attempt w3 cfg k to amt tok) (transfer_erc20 w3 cfg k to amt tok) s
           \<and> broadcasts (new_events (transfer_erc20 w3 cfg k to amt tok) s) = 3
           \<and> sleeps (new_events (transfer_erc20 w3 cfg k to amt tok) s) =
               [Sleep (Finite 2), Sleep (Finite 2)])"
proof -
  have native: "three_failed_attempts (receipt_failed w3)
           (send_native_token_attempt w3 cfg k to amt) (send_native_token w3 cfg k to amt) s
       \<and> broadcasts (new_events (send_native_token w3 cfg k to amt) s) = 3
       \<and> sleeps (new_events (send_native_token w3 cfg k to amt) s) =
           [Sleep (Finite 2), Sleep (Finite 2)]"
    unfolding send_native_token_def
    by (rule reverted_run) (rule send_native_token_attempt_reverted[OF assms])
  have token: "three_failed_attempts (receipt_failed w3)
             (transfer_erc20_attempt w3 cfg k to amt tok) (transfer_erc20 w3 cfg k to amt tok) s
           \<and> broadcasts (new_events (transfer_erc20 w3 cfg k to amt tok) s) = 3
           \<and> sleeps (new_events (transfer_erc20 w3 cfg k to amt tok) s) =
               [Sleep (Finite 2), Sleep (Finite 2)]"
    if ct: "get_contract w3 tok = Inr ct"
      and build: "\<forall>d w. \<exists>tx w'. transfer_build_transaction w3 ct c amt d w = (Inr tx, w')"
    for ct
    unfolding transfer_erc20_def
  proof (rule reverted_run)
    fix s' :: "'a state"
    show "\<exists>e s''. transfer_erc20_attempt w3 cfg k to amt tok s' = (Inl e, s'') \<and>
            receipt_failed w3 s' e s''"
      using build
      by (intro transfer_erc20_attempt_reverted[OF key ct addr nonce wei _ sign accepted reverted])
         simp
  qed
  from native token show ?thesis by blast
qed

theorem reverted_receipt_is_retried_witness:
  "fst (send_native_token node_reverting_in_turn cfg0 ''0xfaucet'' ''0xb0b'' 9 (state0 [alice])) =
     Inl (PyException ''Transaction failed: 0xhash3'')
   \<and> three_failed_attempts (receipt_failed node_reverting_in_turn)
       (send_native_token_attempt node_reverting_in_turn cfg0 ''0xfaucet'' ''0xb0b'' 9)
       (send_native_token node_reverting_in_turn cfg0 ''0xfaucet'' ''0xb0b'' 9) (state0 [alice])
   \<and> broadcasts (new_events (send_native_token node_reverting_in_turn cfg0 ''0xfaucet'' ''0xb0b'' 9)
       (state0 [alice])) = 3
   \<and> sleeps (new_events (send_native_token node_reverting_in_turn cfg0 ''0xfaucet'' ''0xb0b'' 9)
       (state0 [alice])) = [Sleep (Finite 2), Sleep (Finite 2)]
   \<and> fst (transfer_erc20 node_reverting_in_turn cfg0 ''0xfaucet'' ''0xb0b'' 9 ''0xtoken''
       (state0 [alice])) = Inl (PyException ''Transaction failed: 0xhash3'')
   \<and> three_failed_attempts (receipt_failed node_reverting_in_turn)
       (transfer_erc20_attempt node_reverting_in_turn cfg0 ''0xfaucet'' ''0xb0b'' 9 ''0xtoken'')
       (transfer_erc20 node_reverting_in_turn cfg0 ''0xfaucet'' ''0xb0b'' 9 ''0xtoken'')
       (state0 [alice])
   \<and> broadcasts (new_events
       (transfer_erc20 node_reverting_in_turn cfg0 ''0xfaucet'' ''0xb0b'' 9 ''0xtoken'')
       (state0 [alice])) = 3
   \<and> sleeps (new_events
       (transfer_erc20 node_reverting_in_turn cfg0 ''0xfaucet'' ''0xb0b'' 9 ''0xtoken'')
       (state0 [alice])) = [Sleep (Finite 2), Sleep (Finite 2)]"
proof -
  have native: "fst (send_native_token node_reverting_in_turn cfg0 ''0xfaucet'' ''0xb0b'' 9
      (state0 [alice])) = Inl (PyException ''Transaction failed: 0xhash3'')"
    by (simp add: send_native_token_def send_native_token_attempt_def
        node_reverting_in_turn_def eval_defs)
  have token: "fst (transfer_erc20 node_reverting_in_turn cfg0 ''0xfaucet'' ''0xb0b'' 9 ''0xtoken''
      (state0 [alice])) = Inl (PyException ''Transaction failed: 0xhash3'')"
    by (simp add: transfer_erc20_def transfer_erc20_attempt_def get_contract_def
        node_reverting_in_turn_def eval_defs)
  have build: "\<exists>ct. get_contract node_reverting_in_turn ''0xtoken'' = Inr ct \<and>
      (\<forall>d w. \<exists>tx w'. transfer_build_transaction node_reverting_in_turn ct ''0xb0b'' 9 d w =
         (Inr tx, w'))"
    by (simp add: get_contract_def node_reverting_in_turn_def node_ok_def startswith_def)
  have run: "three_failed_attempts (receipt_failed node_reverting_in_turn)
       (send_native_token_attempt node_reverting_in_turn cfg0 ''0xfaucet'' ''0xb0b'' 9)
       (send_native_token node_reverting_in_turn cfg0 ''0xfaucet'' ''0xb0b'' 9) (state0 [alice])
   \<and> broadcasts (new_events (send_native_token node_reverting_in_turn cfg0 ''0xfaucet'' ''0xb0b'' 9)
       (state0 [alice])) = 3
   \<and> sleeps (new_events (send_native_token node_reverting_in_turn cfg0 ''0xfaucet'' ''0xb0b'' 9)
       (state0 [alice])) = [Sleep (Finite 2), Sleep (Finite 2)]
   \<and> ((\<exists>ct. get_contract node_reverting_in_turn ''0xtoken'' = Inr ct \<and>
      (\<forall>d w. \<exists>tx w'. transfer_build_transaction node_reverting_in_turn ct ''0xb0b'' 9 d w =
         (Inr tx, w'))) \<longrightarrow>
   three_failed_attempts (receipt_failed node_reverting_in_turn)
       (transfer_erc20_attempt node_reverting_in_turn cfg0 ''0xfaucet'' ''0xb0b'' 9 ''0xtoken'')
       (transfer_erc20 node_reverting_in_turn cfg0 ''0xfaucet'' ''0xb0b'' 9 ''0xtoken'')
       (state0 [alice])
   \<and> broadcasts (new_events
       (transfer_erc20 node_reverting_in_turn cfg0 ''0xfaucet'' ''0xb0b'' 9 ''0xtoken'')
       (state0 [alice])) = 3
   \<and> sleeps (new_events
       (transfer_erc20 node_reverting_in_turn cfg0 ''0xfaucet'' ''0xb0b'' 9 ''0xtoken'')
       (state0 [alice])) = [Sleep (Finite 2), Sleep (Finite 2)])"
    by (rule reverted_receipt_is_retried[where a = "''0xaddr_0xfaucet''" and c = "''0xb0b''"
          and gp = 100000000])
       (simp_all add: node_reverting_in_turn_def node_ok_def cfg0_def startswith_def)
  from run build native token show ?thesis by blast
qed


lemma estimate_events_no_retry [simp]:
  "filter (\<lambda>ev. ev = Log LWarning ''Retry attempt'') (estimate_events w3 t s) = []"
  using estimate_events_cases[of w3 t s] by auto

lemma estimate_events_set:
  "ev \<in> set (estimate_events w3 t s) \<Longrightarrow>
     ev = EstimateGas t \<or> ev = Log LWarning ''Gas estimation failed, using default''"
  using estimate_events_cases[of w3 t s] by auto

section \<open>The nonce of an attempt\<close>

lemma native_transaction_nonce [simp]:
  "native_transaction cfg n c v gp ''nonce'' = Some (PyInt n)"
  by (simp add: native_transaction_def)










section \<open>The transaction of a token transfer\<close>

lemma transfer_erc20_attempt_build:
  "\<exists>evs. trace (snd (transfer_erc20_attempt w3 cfg k to amt tok s)) = trace s @ evs \<and>
     (\<forall>ct c v d. BuildTransaction ct c v d \<in> set evs \<longrightarrow> gas_field_is_gas_price w3 cfg d)"
  apply (simp add: transfer_erc20_attempt_def io_defs estimate_gas_eq getitem_def
      split: sum.splits prod.splits option.splits)
  apply (intro allI impI conjI)
  apply (auto dest!: estimate_events_set simp add: gas_field_is_gas_price_def)
  done

text \<open>
  Claim C8.  The dictionary that a token transfer passes to \<^verbatim>\<open>build_transaction\<close> has
  exactly the keys \<^verbatim>\<open>from\<close>, \<^verbatim>\<open>nonce\<close>, \<^verbatim>\<open>gas\<close> and \<^verbatim>\<open>chainId\<close>: its \<^verbatim>\<open>gas\<close>
  entry is the gas price in wei, and it has no \<^verbatim>\<open>gasPrice\<close> entry.
\<close>

theorem token_transfer_gas_field:
  "BuildTransaction ct c v d \<in> set (new_events (transfer_erc20 w3 cfg k to amt tok) s) \<Longrightarrow>
   \<exists>gp. to_wei w3 (gas_price_gwei cfg) ''gwei'' = Inr gp \<and> d ''gas'' = Some (PyInt gp) \<and>
        d ''gasPrice'' = None \<and> dom d = {''from'', ''nonce'', ''gas'', ''chainId''}"
proof -
  assume m: "BuildTransaction ct c v d \<in> set (new_events (transfer_erc20 w3 cfg k to amt tok) s)"
  let ?Q = "\<lambda>evs. \<forall>ct c v d. BuildTransaction ct c v d \<in> set evs \<longrightarrow> gas_field_is_gas_price w3 cfg d"
  let ?f = "transfer_erc20_attempt w3 cfg k to amt tok"
  let ?d = "Finite 2"
  obtain a b c' where q: "?Q a" "?Q b" "?Q c'"
      and shape: "new_events (async_retry 3 ?d ?f) s = a \<or>
         new_events (async_retry 3 ?d ?f) s = a @ retry_events ?d @ b \<or>
         new_events (async_retry 3 ?d ?f) s = a @ retry_events ?d @ b @ retry_events ?d @ c' \<or>
         new_events (async_retry 3 ?d ?f) s =
           a @ retry_events ?d @ b @ retry_events ?d @ c' @ give_up_events"
    using async_retry_3_events[of ?f ?Q ?d s, OF transfer_erc20_attempt_build] by blast
  have "BuildTransaction ct c v d \<in> set a \<or> BuildTransaction ct c v d \<in> set b \<or>
        BuildTransaction ct c v d \<in> set c'"
    using m shape unfolding transfer_erc20_def
    by (auto simp add: retry_events_def give_up_events_def)
  then have "gas_field_is_gas_price w3 cfg d"
    using q by blast
  then show ?thesis
    by (simp add: gas_field_is_gas_price_def)
qed

theorem token_transfer_gas_field_witness:
  "BuildTransaction ''0x70ken'' ''0xb0b'' 25
      [''from'' \<mapsto> PyStr ''0xaddr_0xa'', ''nonce'' \<mapsto> PyInt 0, ''gas'' \<mapsto> PyInt 100000000,
       ''chainId'' \<mapsto> PyInt 1000]
     \<in> set (new_events (transfer_erc20 node_ok cfg0 ''0xa'' ''0xb0b'' 25 ''0x70ken'')
              (state0 [alice, bob])) \<and>
   to_wei node_ok (gas_price_gwei cfg0) ''gwei'' = Inr 100000000 \<and> gas_limit cfg0 = 100000"
proof -
  let ?d = "[''from'' \<mapsto> PyStr ''0xaddr_0xa'', ''nonce'' \<mapsto> PyInt 0, ''gas'' \<mapsto> PyInt 100000000,
       ''chainId'' \<mapsto> PyInt 1000]"
  have m: "BuildTransaction ''0x70ken'' ''0xb0b'' 25 ?d
     \<in> set (new_events (transfer_erc20 node_ok cfg0 ''0xa'' ''0xb0b'' 25 ''0x70ken'')
              (state0 [alice, bob]))"
    by (simp add: transfer_erc20_def transfer_erc20_attempt_def get_contract_def eval_defs)
  obtain gp where "to_wei node_ok (gas_price_gwei cfg0) ''gwei'' = Inr gp"
    "?d ''gas'' = Some (PyInt gp)"
    using token_transfer_gas_field[OF m] by blast
  then have "to_wei node_ok (gas_price_gwei cfg0) ''gwei'' = Inr 100000000"
    by simp
  with m show ?thesis by (simp add: cfg0_def)
qed

section \<open>The balance lookup\<close>

lemma get_balance_attempt_events:
  "\<exists>evs. trace (snd (get_balance_attempt w3 addr tok s)) = trace s @ evs \<and>
     broadcasts evs = 0 \<and> (\<forall>x. EthGetBalance x \<notin> set evs)"
  by (auto simp add: get_balance_attempt_def io_defs count_defs split: sum.splits prod.splits)

lemma get_balance_attempt_db:
  "db_rows (snd (get_balance_attempt w3 addr tok s)) = db_rows s \<and>
   db_pending (snd (get_balance_attempt w3 addr tok s)) = db_pending s"
  by (auto simp add: get_balance_attempt_def io_defs split: sum.splits prod.splits)



lemma async_retry_3_all_events:
  assumes "\<And>s. \<exists>evs. trace (snd (f s)) = trace s @ evs \<and> Q evs"
    and "Q []" and "\<And>xs ys. Q xs \<Longrightarrow> Q ys \<Longrightarrow> Q (xs @ ys)"
    and "Q (retry_events d)" and "Q give_up_events"
  shows "\<exists>evs. trace (snd (async_retry 3 d f s)) = trace s @ evs \<and> Q evs"
proof -
  obtain r1 s1 where f1: "f s = (r1, s1)" by (cases "f s")
  obtain a where a: "trace s1 = trace s @ a" "Q a" using assms(1)[of s] f1 by auto
  let ?s1 = "snd (on_retry d s1)"
  obtain r2 s2 where f2: "f ?s1 = (r2, s2)" by (cases "f ?s1")
  obtain b where b: "trace s2 = trace ?s1 @ b" "Q b" using assms(1)[of ?s1] f2 by auto
  let ?s2 = "snd (on_retry d s2)"
  obtain r3 s3 where f3: "f ?s2 = (r3, s3)" by (cases "f ?s2")
  obtain c where c: "trace s3 = trace ?s2 @ c" "Q c" using assms(1)[of ?s2] f3 by auto
  have 0: "Q (c @ give_up_events)"
    by (rule assms(3)[OF c(2) assms(5)])
  have 1: "Q (a @ retry_events d @ b)"
    by (rule assms(3)[OF a(2) assms(3)[OF assms(4) b(2)]])
  have 2: "Q (a @ retry_events d @ b @ retry_events d @ c)"
    by (rule assms(3)[OF a(2) assms(3)[OF assms(4) assms(3)[OF b(2) assms(3)[OF assms(4) c(2)]]]])
  have 3: "Q (a @ retry_events d @ b @ retry_events d @ c @ give_up_events)"
    by (rule assms(3)[OF a(2) assms(3)[OF assms(4) assms(3)[OF b(2) assms(3)[OF assms(4) 0]]]])
  show ?thesis
    using f1 f2 f3 a b c 1 2 3
    by (cases r1; cases r2; cases r3)
       (simp_all add: async_retry_3 on_retry_eq on_give_up_eq)
qed

lemma async_retry_3_db:
  assumes "\<And>s. db_rows (snd (f s)) = db_rows s \<and> db_pending (snd (f s)) = db_pending s"
  shows "db_rows (snd (async_retry 3 d f s)) = db_rows s \<and>
         db_pending (snd (async_retry 3 d f s)) = db_pending s"
proof -
  obtain r1 s1 where f1: "f s = (r1, s1)" by (cases "f s")
  let ?s1 = "snd (on_retry d s1)"
  obtain r2 s2 where f2: "f ?s1 = (r2, s2)" by (cases "f ?s1")
  let ?s2 = "snd (on_retry d s2)"
  obtain r3 s3 where f3: "f ?s2 = (r3, s3)" by (cases "f ?s2")
  show ?thesis
    using f1 f2 f3 assms[of s] assms[of ?s1] assms[of ?s2]
    by (cases r1; cases r2; cases r3)
       (simp_all add: async_retry_3 on_retry_eq on_give_up_eq)
qed

lemma get_balance_events:
  "\<exists>evs. trace (snd (get_balance w3 addr tok s)) = trace s @ evs \<and>
     broadcasts evs = 0 \<and> (\<forall>x. EthGetBalance x \<notin> set evs)"
  unfolding get_balance_def
proof (rule async_retry_3_all_events[where Q = "\<lambda>evs. broadcasts evs = 0 \<and> (\<forall>x. EthGetBalance x \<notin> set evs)"])
  show "\<exists>evs. trace (snd (get_balance_attempt w3 addr tok s)) = trace s @ evs \<and>
     broadcasts evs = 0 \<and> (\<forall>x. EthGetBalance x \<notin> set evs)" for s :: "'a state"
    by (rule get_balance_attempt_events)
qed (simp_all add: count_defs retry_events_def give_up_events_def)




section \<open>The balance check of a transfer\<close>

lemma get_user_by_name_found:
  "filter (\<lambda>u. user_name u = nm) (db_rows s) = [u] \<Longrightarrow> get_user_by_name nm s = (Inr u, s)"
  by (simp add: get_user_by_name_def select_user_by_name_def io_defs)

lemma get_user_by_name_missing:
  "filter (\<lambda>u. user_name u = nm) (db_rows s) = [] \<Longrightarrow>
   get_user_by_name nm s =
     (Inl (AccountNotFoundError (''Account '' @ quoted nm @ '' not found'')),
      s\<lparr>trace := trace s @ [Log LWarning ''Account not found'']\<rparr>)"
  by (simp add: get_user_by_name_def select_user_by_name_def io_defs)

text \<open>
  Claim C6, amended.  When the sender and the recipient both have an account and the
  balance lookup for the sender returns a value strictly less than the amount,
  \<^verbatim>\<open>transfer_from_to\<close> raises \<^verbatim>\<open>InsufficientBalanceError\<close> with both numbers in its
  message, in the state the lookup left, and nothing has been broadcast.
\<close>

theorem insufficient_balance_before_broadcast:
  assumes sender: "filter (\<lambda>u. user_name u = from_name) (db_rows s) = [from_user]"
    and recipient: "filter (\<lambda>u. user_name u = to_name) (db_rows s) = [to_user]"
    and balance: "get_balance w3 (user_address from_user) tok s = (Inr b, s')"
    and less: "b < amount"
  shows "transfer_from_to w3 cfg from_name to_name amount tok s =
           (Inl (InsufficientBalanceError
                   (''Insufficient balance. Available: '' @ str_int b @
                    '', Required: '' @ str_int amount)), s') \<and>
         broadcasts (new_events (transfer_from_to w3 cfg from_name to_name amount tok) s) = 0"
proof -
  have run: "transfer_from_to w3 cfg from_name to_name amount tok s =
           (Inl (InsufficientBalanceError
                   (''Insufficient balance. Available: '' @ str_int b @
                    '', Required: '' @ str_int amount)), s')"
    using balance less
    by (simp add: transfer_from_to_def bind_def[of "get_user_by_name _"]
        get_user_by_name_found[OF sender] get_user_by_name_found[OF recipient]
        try_except_def bind_def raise_def ret_def)
  obtain evs where evs: "trace (snd (get_balance w3 (user_address from_user) tok s)) = trace s @ evs"
    "broadcasts evs = 0"
    using get_balance_events[of w3 "user_address from_user" tok s] by blast
  have "new_events (transfer_from_to w3 cfg from_name to_name amount tok) s = evs"
    using run evs(1) balance by (simp add: new_events_def)
  with run evs(2) show ?thesis by simp
qed

text \<open>
  Claim C6 fails on the code for a request whose recipient has no account: both accounts
  are looked up before the balance is read, so the request of a sender with balance 100
  for an amount of 150 raises \<^verbatim>\<open>AccountNotFoundError\<close>, not
  \<^verbatim>\<open>InsufficientBalanceError\<close>.
\<close>

theorem insufficient_balance_counterexample:
  "fst (get_balance node_ok (user_address alice) ''0x70ken'' (state0 [alice])) = Inr 100 \<and>
   fst (transfer_from_to node_ok cfg0 ''alice'' ''bob'' 150 ''0x70ken'' (state0 [alice])) =
     Inl (AccountNotFoundError (''Account '' @ quoted ''bob'' @ '' not found''))"
  by (simp add: transfer_from_to_def get_user_by_name_def select_user_by_name_def alice_def
      get_balance_def get_balance_attempt_def get_contract_def eval_defs)

theorem insufficient_balance_before_broadcast_witness:
  "transfer_from_to node_ok cfg0 ''alice'' ''bob'' 150 ''0x70ken'' (state0 [alice, bob]) =
     (Inl (InsufficientBalanceError ''Insufficient balance. Available: 100, Required: 150''),
      \<lparr>world = 0, trace = [CallBalanceOf ''0x70ken'' ''0xa11ce''], db_rows = [alice, bob],
        db_pending = []\<rparr>) \<and>
   broadcasts (new_events (transfer_from_to node_ok cfg0 ''alice'' ''bob'' 150 ''0x70ken'')
      (state0 [alice, bob])) = 0"
proof -
  have 1: "filter (\<lambda>u. user_name u = ''alice'') (db_rows (state0 [alice, bob])) = [alice]"
    by (simp add: state0_def alice_def bob_def)
  have 2: "filter (\<lambda>u. user_name u = ''bob'') (db_rows (state0 [alice, bob])) = [bob]"
    by (simp add: state0_def alice_def bob_def)
  have 3: "get_balance node_ok (user_address alice) ''0x70ken'' (state0 [alice, bob]) =
      (Inr 100, \<lparr>world = 0, trace = [CallBalanceOf ''0x70ken'' ''0xa11ce''],
                 db_rows = [alice, bob], db_pending = []\<rparr>)"
    by (simp add: get_balance_def get_balance_attempt_def get_contract_def eval_defs alice_def)
  have 4: "(100::int) < 150" by simp
  have 5: "str_int 100 = ''100''" "str_int 150 = ''150''"
    by code_simp+
  show ?thesis
    using insufficient_balance_before_broadcast[OF 1 2 3 4, of cfg0] 5 by simp
qed

section \<open>Account creation and the faucet\<close>

lemma web3_create_account_db:
  "web3_create_account w3 s = (r, s1) \<Longrightarrow>
   db_rows s1 = db_rows s \<and> db_pending s1 = db_pending s"
  by (auto simp add: web3_create_account_def io_defs split: sum.splits prod.splits)

lemma send_native_token_db:
  "db_rows (snd (send_native_token w3 cfg k to amt s)) = db_rows s \<and>
   db_pending (snd (send_native_token w3 cfg k to amt s)) = db_pending s"
  unfolding send_native_token_def
  by (rule async_retry_3_db) (rule send_native_token_attempt_db)

lemma filter_empty_list_ex:
  "filter P xs = [] \<Longrightarrow> \<not> list_ex P xs"
  by (simp add: list_ex_iff filter_empty_conv)

lemma create_account_existing:
  "filter (\<lambda>u. user_name u = nm) (db_rows s) = [u] \<Longrightarrow>
   create_account w3 cfg nm s =
     (Inl (AccountAlreadyExistsError (''Account with name '' @ quoted nm @ '' already exists'')),
      s\<lparr>trace := trace s @ [Log LWarning ''Account already exists'']\<rparr>)"
  by (simp add: create_account_def select_user_by_name_def io_defs)

text \<open>
  Claim C10.  \<^verbatim>\<open>create_account\<close> commits the new row before it asks the faucet: for a new
  name, once the key pair is generated and its address is not yet in the table, a failure
  \<open>e\<close> of the faucet transfer makes \<^verbatim>\<open>create_account\<close> raise
  \<^verbatim>\<open>BlockchainError\<close> in a state whose table has the new row; every later
  \<^verbatim>\<open>create_account\<close> for this name in that state raises
  \<^verbatim>\<open>AccountAlreadyExistsError\<close>.
\<close>

theorem account_persists_when_faucet_fails:
  assumes fresh: "filter (\<lambda>r. user_name r = nm) (db_rows s) = []"
    and pending: "db_pending s = []"
    and created: "web3_create_account w3 s = (Inr acct, s1)"
    and unused: "\<not> list_ex (\<lambda>r. user_address r = account_address acct) (db_rows s)"
    and u: "u = \<lparr>user_name = nm, user_address = account_address acct,
                  user_private_key = account_private_key acct\<rparr>"
    and wei: "to_wei w3 (initial_faucet_gwei cfg) ''gwei'' = Inr amount_wei"
    and faucet: "send_native_token w3 cfg (faucet_private_key cfg) (account_address acct)
                   amount_wei (s1\<lparr>db_rows := db_rows s @ [u], db_pending := []\<rparr>) = (Inl e, s2)"
  shows "\<exists>s'. create_account w3 cfg nm s =
                (Inl (BlockchainError (''Faucet funding failed: '' @ str_exn e)), s') \<and>
              db_rows s' = db_rows s @ [u] \<and>
              (\<forall>w3' cfg'. fst (create_account w3' cfg' nm s') =
                 Inl (AccountAlreadyExistsError
                        (''Account with name '' @ quoted nm @ '' already exists'')))"
proof -
  let ?s' = "s2\<lparr>trace := trace s2 @ [Log LError ''Faucet funding failed'']\<rparr>"
  have db1: "db_rows s1 = db_rows s" "db_pending s1 = db_pending s"
    using web3_create_account_db[OF created] by simp_all
  have noname: "\<not> list_ex (\<lambda>r. user_name r = nm) (db_rows s)"
    using fresh by (rule filter_empty_list_ex)
  have flush: "db_flush (db_rows s) [u] = Inr (db_rows s @ [u])"
    using noname unused by (simp add: u list_ex_iff)
  have sel: "filter (\<lambda>r. user_name r = nm) (db_rows s @ [u]) = [u]"
    using fresh by (simp add: u)
  have db2: "db_rows s2 = db_rows s @ [u]"
    using send_native_token_db[of w3 cfg "faucet_private_key cfg" "account_address acct"
        amount_wei "s1\<lparr>db_rows := db_rows s @ [u], db_pending := []\<rparr>"] faucet
    by simp
  have fund: "get_initial_fund w3 cfg nm (Some u) (s1\<lparr>db_rows := db_rows s @ [u], db_pending := []\<rparr>)
      = (Inl (BlockchainError (''Faucet funding failed: '' @ str_exn e)), ?s')"
    using wei faucet by (simp add: get_initial_fund_def io_defs u)
  have run: "create_account w3 cfg nm s =
      (Inl (BlockchainError (''Faucet funding failed: '' @ str_exn e)), ?s')"
    using fresh created db1 pending flush sel fund
    by (simp add: create_account_def select_user_by_name_def db_add_def db_commit_def
        db_refresh_def bind_def ret_def raise_def u[symmetric])
  have later: "filter (\<lambda>r. user_name r = nm) (db_rows ?s') = [u]"
    using sel db2 by simp
  show ?thesis
    using run db2 create_account_existing[OF later] by simp
qed


theorem account_persists_when_faucet_fails_witness:
  "\<exists>s'. create_account node_rejecting cfg0 ''carol'' (state0 [alice]) =
          (Inl (BlockchainError ''Faucet funding failed: insufficient funds for gas''), s') \<and>
        db_rows s' =
          [alice, \<lparr>user_name = ''carol'', user_address = ''0x'' @ replicate 40 CHR ''a'',
                    user_private_key = ''0xfeed''\<rparr>] \<and>
        fst (create_account node_ok cfg0 ''carol'' s') =
          Inl (AccountAlreadyExistsError (''Account with name '' @ quoted ''carol'' @
                                          '' already exists''))"
proof -
  let ?acct = "\<lparr>account_address = ''0x'' @ replicate 40 CHR ''a'',
                account_private_key = ''0xfeed''\<rparr>"
  let ?u = "\<lparr>user_name = ''carol'', user_address = account_address ?acct,
             user_private_key = account_private_key ?acct\<rparr>"
  let ?st = "(state0 [alice])\<lparr>db_rows := db_rows (state0 [alice]) @ [?u], db_pending := []\<rparr>"
  have fresh: "filter (\<lambda>r. user_name r = ''carol'') (db_rows (state0 [alice])) = []"
    by (simp add: state0_def alice_def)
  have pending: "db_pending (state0 [alice]) = []"
    by (simp add: state0_def)
  have created: "web3_create_account node_rejecting (state0 [alice]) = (Inr ?acct, state0 [alice])"
    by (simp add: web3_create_account_def io_defs node_rejecting_def node_ok_def state0_def
        validate_address_def validate_private_key_def startswith_def)
  have unused: "\<not> list_ex (\<lambda>r. user_address r = account_address ?acct) (db_rows (state0 [alice]))"
    by (auto simp add: state0_def alice_def dest: arg_cong[where f = length])
  have wei: "to_wei node_rejecting (initial_faucet_gwei cfg0) ''gwei'' = Inr 10000000000"
    by (simp add: node_rejecting_def node_ok_def cfg0_def)
  have "fst (send_native_token node_rejecting cfg0 (faucet_private_key cfg0)
               (account_address ?acct) 10000000000 ?st) =
        Inl (LibraryError ''insufficient funds for gas'')"
    by (simp add: send_native_token_def send_native_token_attempt_def node_rejecting_def
        eval_defs)
  then obtain s2 where faucet:
    "send_native_token node_rejecting cfg0 (faucet_private_key cfg0)
       (account_address ?acct) 10000000000 ?st =
     (Inl (LibraryError ''insufficient funds for gas''), s2)"
    by (metis prod.collapse)
  obtain s' where run: "create_account node_rejecting cfg0 ''carol'' (state0 [alice]) =
        (Inl (BlockchainError (''Faucet funding failed: '' @
                str_exn (LibraryError ''insufficient funds for gas''))), s')"
    and rows: "db_rows s' = db_rows (state0 [alice]) @ [?u]"
    and later: "\<forall>w3' cfg'. fst (create_account w3' cfg' ''carol'' s') =
        Inl (AccountAlreadyExistsError
               (''Account with name '' @ quoted ''carol'' @ '' already exists''))"
    using account_persists_when_faucet_fails[OF fresh pending created unused refl wei faucet] by blast
  have "fst (create_account node_ok cfg0 ''carol'' s') =
        Inl (AccountAlreadyExistsError
               (''Account with name '' @ quoted ''carol'' @ '' already exists''))"
    using later by blast
  with run rows show ?thesis
    by (intro exI[of _ s']) (simp add: state0_def)
qed

section \<open>Double-precision arithmetic of the gas buffer\<close>



















section \<open>Gas estimation\<close>










section \<open>The round trip of an encrypted private key\<close>

lemma of_char_of_small: "n < 256 \<Longrightarrow> (of_char (char_of (n::nat)) :: nat) = n"
  by simp

lemma decode_one_byte:
  assumes "c < 0x80"
  shows "utf8_decode (char_of c # rest) = decoded c (utf8_decode rest)"
proof -
  have "(of_char (char_of c) :: nat) = c" using assms by (intro of_char_of_small) simp
  then show ?thesis using assms by simp
qed

lemma decode_two_bytes:
  assumes "0x80 \<le> c" "c < 0x800"
  shows "utf8_decode (char_of (0xC0 + c div 64) # char_of (0x80 + c mod 64) # rest) =
         decoded c (utf8_decode rest)"
proof -
  have d: "2 \<le> c div 64" "c div 64 < 32" using assms by arith+
  have m: "c mod 64 < 64" by simp
  have b0: "(of_char (char_of (0xC0 + c div 64)) :: nat) = 0xC0 + c div 64"
    using d by (intro of_char_of_small) simp
  have b1: "(of_char (char_of (0x80 + c mod 64)) :: nat) = 0x80 + c mod 64"
    using m by (intro of_char_of_small) simp
  have c: "c div 64 * 64 + c mod 64 = c" by simp
  show ?thesis
    using d m c by (simp add: b0 b1 is_continuation_def continuation_bits_def del: of_char_of)
qed

lemma radix_64:
  fixes a b m :: nat
  shows "a * (64 * m) + b * m = (a * 64 + b) * m"
  by (simp add: algebra_simps)

lemma split_three:
  fixes c :: nat
  shows "c div 4096 * 4096 + c div 64 mod 64 * 64 + c mod 64 = c"
proof -
  define t where "t = c div 64"
  have a: "c div 4096 = t div 64"
    using div_mult2_eq[of c 64 64] by (simp add: t_def)
  have "t div 64 * 4096 + t mod 64 * 64 = (t div 64 * 64 + t mod 64) * 64"
    using radix_64[of "t div 64" 64 "t mod 64"] by (simp only: mult_numeral_left_semiring_numeral numeral_times_numeral semiring_norm)
  also have "\<dots> = t * 64"
    by (simp only: div_mult_mod_eq)
  finally have "t div 64 * 4096 + t mod 64 * 64 + c mod 64 = t * 64 + c mod 64"
    by (simp only:)
  also have "\<dots> = c"
    unfolding t_def by (rule div_mult_mod_eq)
  finally show ?thesis
    by (simp only: a t_def)
qed

lemma split_four:
  fixes c :: nat
  shows "c div 262144 * 262144 + c div 4096 mod 64 * 4096 + c div 64 mod 64 * 64 + c mod 64 = c"
proof -
  define t where "t = c div 4096"
  have a: "c div 262144 = t div 64"
    using div_mult2_eq[of c 4096 64] by (simp add: t_def)
  have "t div 64 * 262144 + t mod 64 * 4096 = (t div 64 * 64 + t mod 64) * 4096"
    using radix_64[of "t div 64" 4096 "t mod 64"] by (simp only: mult_numeral_left_semiring_numeral numeral_times_numeral semiring_norm)
  also have "\<dots> = t * 4096"
    by (simp only: div_mult_mod_eq)
  finally have "t div 64 * 262144 + t mod 64 * 4096 + c div 64 mod 64 * 64 + c mod 64 =
      t * 4096 + c div 64 mod 64 * 64 + c mod 64"
    by (simp only:)
  also have "\<dots> = c"
    unfolding t_def by (rule split_three)
  finally show ?thesis
    by (simp only: a t_def)
qed

lemma decode_three_bytes:
  assumes "0x800 \<le> c" "c < 0x10000" "\<not> is_surrogate c"
  shows "utf8_decode (char_of (0xE0 + c div 4096) # char_of (0x80 + c div 64 mod 64) #
            char_of (0x80 + c mod 64) # rest) =
         decoded c (utf8_decode rest)"
proof -
  have d: "c div 4096 < 16" using assms by arith
  have b0: "(of_char (char_of (0xE0 + c div 4096)) :: nat) = 0xE0 + c div 4096"
    using d by (intro of_char_of_small) simp
  have b1: "(of_char (char_of (0x80 + c div 64 mod 64)) :: nat) = 0x80 + c div 64 mod 64"
    by (intro of_char_of_small) (simp add: less_le_trans[OF add_strict_left_mono[OF mod_less_divisor]])
  have b2: "(of_char (char_of (0x80 + c mod 64)) :: nat) = 0x80 + c mod 64"
    by (intro of_char_of_small) (simp add: less_le_trans[OF add_strict_left_mono[OF mod_less_divisor]])
  have c: "c div 4096 * 4096 + c div 64 mod 64 * 64 + c mod 64 = c" by (rule split_three)
  show ?thesis
    using d assms c
    by (simp add: b0 b1 b2 is_continuation_def continuation_bits_def Let_def del: of_char_of)
qed

lemma decode_four_bytes:
  assumes "0x10000 \<le> c" "c < 0x110000"
  shows "utf8_decode (char_of (0xF0 + c div 262144) # char_of (0x80 + c div 4096 mod 64) #
            char_of (0x80 + c div 64 mod 64) # char_of (0x80 + c mod 64) # rest) =
         decoded c (utf8_decode rest)"
proof -
  have d: "c div 262144 < 5" using assms by arith
  have b0: "(of_char (char_of (0xF0 + c div 262144)) :: nat) = 0xF0 + c div 262144"
    using d by (intro of_char_of_small) simp
  have b1: "(of_char (char_of (0x80 + c div 4096 mod 64)) :: nat) = 0x80 + c div 4096 mod 64"
    by (intro of_char_of_small) (simp add: less_le_trans[OF add_strict_left_mono[OF mod_less_divisor]])
  have b2: "(of_char (char_of (0x80 + c div 64 mod 64)) :: nat) = 0x80 + c div 64 mod 64"
    by (intro of_char_of_small) (simp add: less_le_trans[OF add_strict_left_mono[OF mod_less_divisor]])
  have b3: "(of_char (char_of (0x80 + c mod 64)) :: nat) = 0x80 + c mod 64"
    by (intro of_char_of_small) (simp add: less_le_trans[OF add_strict_left_mono[OF mod_less_divisor]])
  have c: "c div 262144 * 262144 + c div 4096 mod 64 * 4096 + c div 64 mod 64 * 64 + c mod 64 = c"
    by (rule split_four)
  show ?thesis
    using d assms c
    by (simp add: b0 b1 b2 b3 is_continuation_def continuation_bits_def Let_def del: of_char_of)
qed


lemma encode_cp_decode:
  assumes "utf8_encode_cp c = Inr bs"
  shows "utf8_decode (bs @ rest) = decoded c (utf8_decode rest)"
proof -
  consider "c < 0x80" | "0x80 \<le> c" "c < 0x800" | "0x800 \<le> c" "c < 0x10000"
    | "0x10000 \<le> c" "c < 0x110000" | "0x110000 \<le> c"
    by linarith
  then show ?thesis
  proof cases
    case 1
    then have "bs = [char_of c]" using assms by (simp add: utf8_encode_cp_def)
    then show ?thesis using decode_one_byte[OF 1] by simp
  next
    case 2
    then have "bs = [char_of (0xC0 + c div 64), char_of (0x80 + c mod 64)]"
      using assms by (simp add: utf8_encode_cp_def)
    then show ?thesis using decode_two_bytes[OF 2] by simp
  next
    case 3
    then have ns: "\<not> is_surrogate c"
      using assms by (auto simp add: utf8_encode_cp_def split: if_splits)
    then have "bs = [char_of (0xE0 + c div 4096), char_of (0x80 + c div 64 mod 64),
                   char_of (0x80 + c mod 64)]"
      using assms 3 by (simp add: utf8_encode_cp_def)
    then show ?thesis using decode_three_bytes[OF 3 ns] by simp
  next
    case 4
    then have "bs = [char_of (0xF0 + c div 262144), char_of (0x80 + c div 4096 mod 64),
             char_of (0x80 + c div 64 mod 64), char_of (0x80 + c mod 64)]"
      using assms by (simp add: utf8_encode_cp_def)
    then show ?thesis using decode_four_bytes[OF 4] by simp
  next
    case 5
    then show ?thesis using assms by (simp add: utf8_encode_cp_def)
  qed
qed

lemma utf8_roundtrip:
  "utf8_encode k = Inr bs \<Longrightarrow> utf8_decode bs = Inr k"
proof (induction k arbitrary: bs)
  case Nil
  then show ?case by simp
next
  case (Cons c cs)
  from Cons.prems obtain b rest where b: "utf8_encode_cp c = Inr b"
    and rest: "utf8_encode cs = Inr rest" and bs: "bs = b @ rest"
    by (auto split: sum.splits)
  have "utf8_decode rest = Inr cs" using Cons.IH[OF rest] .
  then show ?case
    using encode_cp_decode[OF b, of rest] bs by (simp add: decoded_def)
qed

lemma utf8_encode_encodable:
  "encodable k \<Longrightarrow> \<exists>bs. utf8_encode k = Inr bs"
proof (induction k)
  case Nil
  then show ?case by simp
next
  case (Cons c cs)
  then obtain rest where "utf8_encode cs = Inr rest"
    by (auto simp add: encodable_def)
  moreover have "\<exists>b. utf8_encode_cp c = Inr b"
    using Cons.prems by (simp add: encodable_def utf8_encode_cp_def)
  ultimately show ?case by auto
qed

lemma utf8_encode_fails:
  "utf8_encode k = Inl e \<Longrightarrow> \<not> encodable k"
proof (induction k)
  case Nil
  then show ?case by simp
next
  case (Cons c cs)
  then show ?case
    by (auto simp add: encodable_def utf8_encode_cp_def split: sum.splits if_splits)
qed

lemma ascii_decode:
  "list_all is_ascii ct \<Longrightarrow> utf8_decode ct = Inr (map of_char ct)"
  by (induction ct) (simp_all add: is_ascii_def decoded_def)

lemma ascii_encode:
  "list_all is_ascii ct \<Longrightarrow> utf8_encode (map of_char ct) = Inr ct"
  by (induction ct) (simp_all add: is_ascii_def utf8_encode_cp_def)

lemma letters_of_byte_ascii: "list_all is_ascii (letters_of_byte b)"
proof -
  have "(of_char b :: nat) < 256" by simp
  then have d: "(of_char b :: nat) div 16 < 16" by arith
  have "(of_char (char_of (65 + (of_char b :: nat) div 16)) :: nat) = 65 + (of_char b :: nat) div 16"
    using d by (intro of_char_of_small) simp
  moreover have "(of_char (char_of (65 + (of_char b :: nat) mod 16)) :: nat) = 65 + (of_char b :: nat) mod 16"
    by (intro of_char_of_small) simp
  ultimately show ?thesis
    using d by (simp add: letters_of_byte_def is_ascii_def del: of_char_of)
qed

lemma toy_tokens_ascii: "list_all is_ascii (concat (map letters_of_byte m))"
  using letters_of_byte_ascii by (induction m) simp_all

lemma bytes_of_letters_of_byte:
  "bytes_of_letters (letters_of_byte b @ cs) =
     (case bytes_of_letters cs of Inl e \<Rightarrow> Inl e | Inr bs \<Rightarrow> Inr (b # bs))"
proof -
  have "(of_char b :: nat) < 256" by simp
  then have d: "(of_char b :: nat) div 16 < 16" by arith
  have h: "(of_char (char_of (65 + (of_char b :: nat) div 16)) :: nat) = 65 + (of_char b :: nat) div 16"
    using d by (intro of_char_of_small) simp
  have l: "(of_char (char_of (65 + (of_char b :: nat) mod 16)) :: nat) = 65 + (of_char b :: nat) mod 16"
    by (intro of_char_of_small) simp
  have "char_of ((of_char b :: nat) div 16 * 16 + (of_char b :: nat) mod 16) = b"
    by (simp only: div_mult_mod_eq char_of_char)
  then show ?thesis
    using d
    by (cases "bytes_of_letters cs") (simp_all add: letters_of_byte_def is_letter_def h l del: of_char_of)
qed

lemma toy_decrypt_encrypt: "bytes_of_letters (concat (map letters_of_byte m)) = Inr m"
  by (induction m) (simp_all add: bytes_of_letters_of_byte del: bytes_of_letters.simps(3))

lemma toy_fernet_correct: "fernet_correct toy_fernet"
  by (simp add: fernet_correct_def toy_fernet_def toy_tokens_ascii toy_decrypt_encrypt)

lemma encrypt_private_key_token:
  assumes "fernet_correct F" and "fst (encrypt_private_key F k w) = Inr token"
  shows "\<exists>bs. utf8_encode k = Inr bs \<and> token = map of_char (fst (fernet_encrypt F bs w))"
proof -
  from assms(2) obtain bs where bs: "utf8_encode k = Inr bs"
    by (auto simp add: encrypt_private_key_def split: sum.splits)
  let ?ct = "fst (fernet_encrypt F bs w)"
  have "list_all is_ascii ?ct" using assms(1) by (simp add: fernet_correct_def)
  then have "utf8_decode ?ct = Inr (map of_char ?ct)" by (rule ascii_decode)
  then have "token = map of_char ?ct"
    using assms(2) bs by (simp add: encrypt_private_key_def split: prod.splits)
  then show ?thesis using bs by simp
qed

lemma decrypt_of_encrypted:
  assumes "fernet_correct F" and "fst (encrypt_private_key F k w) = Inr token"
  shows "fst (decrypt_private_key F token out) = Inr k"
proof -
  from encrypt_private_key_token[OF assms] obtain bs where bs: "utf8_encode k = Inr bs"
    and token: "token = map of_char (fst (fernet_encrypt F bs w))"
    by blast
  let ?ct = "fst (fernet_encrypt F bs w)"
  have "list_all is_ascii ?ct" using assms(1) by (simp add: fernet_correct_def)
  then have enc: "utf8_encode token = Inr ?ct" unfolding token by (rule ascii_encode)
  have dec: "fernet_decrypt F ?ct = Inr bs" using assms(1) by (simp add: fernet_correct_def)
  have "utf8_decode bs = Inr k" using bs by (rule utf8_roundtrip)
  then show ?thesis by (simp add: decrypt_private_key_def enc dec)
qed

lemma encrypt_private_key_succeeds:
  assumes "fernet_correct F" and "encodable k"
  shows "\<exists>token. fst (encrypt_private_key F k w) = Inr token"
proof -
  from utf8_encode_encodable[OF assms(2)] obtain bs where bs: "utf8_encode k = Inr bs" ..
  obtain ct w' where fe: "fernet_encrypt F bs w = (ct, w')"
    by (cases "fernet_encrypt F bs w")
  have "list_all is_ascii (fst (fernet_encrypt F bs w))"
    using assms(1) by (simp add: fernet_correct_def)
  then have "list_all is_ascii ct" by (simp add: fe)
  then have "utf8_decode ct = Inr (map of_char ct)"
    by (rule ascii_decode)
  then show ?thesis using bs fe by (simp add: encrypt_private_key_def)
qed

text \<open>
  Claim C9, amended.  Let the Fernet object keep the promise of the library: its tokens are
  ASCII, and it decrypts a token it made to the message.  Then for every string \<open>k\<close> that
  UTF-8 can encode (no surrogate code point), \<^verbatim>\<open>decrypt_private_key(encrypt_private_key(k))\<close>
  returns \<open>k\<close>; and a token on which \<^verbatim>\<open>decrypt_private_key\<close> raises
  \<^verbatim>\<open>PrivateKeyEncryptionError\<close> is not the result of \<^verbatim>\<open>encrypt_private_key\<close> on any key.
\<close>

theorem private_key_roundtrip:
  assumes "fernet_correct F"
  shows "(encodable k \<longrightarrow> decrypt_after_encrypt F k w out = Inr k) \<and>
         (fst (decrypt_private_key F token out) = Inl (PrivateKeyEncryptionError msg) \<longrightarrow>
            (\<forall>k' w'. fst (encrypt_private_key F k' w') \<noteq> Inr token))"
proof (intro conjI impI allI)
  assume k: "encodable k"
  obtain t where t: "fst (encrypt_private_key F k w) = Inr t"
    using encrypt_private_key_succeeds[OF assms k, of w] ..
  then show "decrypt_after_encrypt F k w out = Inr k"
    using decrypt_of_encrypted[OF assms t] by (simp add: decrypt_after_encrypt_def)
next
  fix k' w'
  assume err: "fst (decrypt_private_key F token out) = Inl (PrivateKeyEncryptionError msg)"
  show "fst (encrypt_private_key F k' w') \<noteq> Inr token"
  proof
    assume "fst (encrypt_private_key F k' w') = Inr token"
    then have "fst (decrypt_private_key F token out) = Inr k'"
      by (rule decrypt_of_encrypted[OF assms])
    then show False using err by simp
  qed
qed

theorem private_key_roundtrip_witness:
  "fernet_correct toy_fernet \<and> encodable [104, 233, 8364, 128512] \<and>
   decrypt_after_encrypt toy_fernet [104, 233, 8364, 128512] 0 [] = Inr [104, 233, 8364, 128512] \<and>
   fst (decrypt_private_key toy_fernet [65] []) =
     Inl (PrivateKeyEncryptionError ''Invalid encryption token for private key'') \<and>
   (\<forall>k' w'. fst (encrypt_private_key toy_fernet k' w') \<noteq> Inr [65])"
proof -
  have ok: "encodable [104, 233, 8364, 128512]"
    by (simp add: encodable_def is_surrogate_def)
  have bad: "fst (decrypt_private_key toy_fernet [65] []) =
     Inl (PrivateKeyEncryptionError ''Invalid encryption token for private key'')"
    by (simp add: decrypt_private_key_def utf8_encode_cp_def toy_fernet_def)
  show ?thesis
    using private_key_roundtrip[OF toy_fernet_correct,
        of "[104, 233, 8364, 128512]" 0 "[]" "[65]" "''Invalid encryption token for private key''"]
      toy_fernet_correct ok bad
    by simp
qed

text \<open>
  Claim C9 fails on the code for a string that UTF-8 cannot encode: on the string of the one
  code point \<open>0xD800\<close>, a lone surrogate, \<^verbatim>\<open>encrypt_private_key\<close> raises
  \<^verbatim>\<open>UnicodeEncodeError\<close> before the Fernet object is reached, so there is nothing to decrypt.
\<close>

theorem surrogate_key_counterexample:
  "decrypt_after_encrypt toy_fernet [55296] 0 [] = Inl (UnicodeEncodeError ''surrogates not allowed'')"
  by (simp add: decrypt_after_encrypt_def encrypt_private_key_def utf8_encode_cp_def
      is_surrogate_def)

end
